theory Spec2Isabelle
  imports Main "HOL-Library.Sublist"
begin

section \<open>Python text values and the string built-ins the scripts call\<close>

text \<open>
  A Python \<^verbatim>\<open>str\<close> is a sequence of Unicode code points. The scripts handle text with
  emoji in it, so a character is modelled by its code point (a natural number) and a
  text by the list of its code points. \<open>U\<close> turns an ASCII literal into such a text.
\<close>

type_synonym pystr = "nat list"

definition U :: "string \<Rightarrow> pystr" where
  "U s = map of_char s"

text \<open>\<^verbatim>\<open>sub in s\<close>: the substring test.\<close>

fun str_in :: "pystr \<Rightarrow> pystr \<Rightarrow> bool" where
  "str_in sub [] = (sub = [])"
| "str_in sub (c # cs) = (prefix sub (c # cs) \<or> str_in sub cs)"

text \<open>
  \<^verbatim>\<open>s.replace(old, new)\<close>: every occurrence of \<open>old\<close>, found from left to right
  without overlap, is replaced. \<open>replace_from\<close> is the scan for a non-empty \<open>old\<close>;
  for the empty \<open>old\<close> Python puts \<open>new\<close> before every character and at the end.
\<close>

function replace_from :: "pystr \<Rightarrow> pystr \<Rightarrow> pystr \<Rightarrow> pystr" where
  "replace_from old new [] = []"
| "replace_from old new (c # cs) =
     (if old \<noteq> [] \<and> prefix old (c # cs)
      then new @ replace_from old new (drop (length old) (c # cs))
      else c # replace_from old new cs)"
  by pat_completeness auto
termination
  by (relation "measure (\<lambda>(old, new, s). length s)") (auto simp: neq_Nil_conv)

definition str_replace :: "pystr \<Rightarrow> pystr \<Rightarrow> pystr \<Rightarrow> pystr" where
  "str_replace s old new =
     (if old = [] then new @ concat (map (\<lambda>c. c # new) s) else replace_from old new s)"

text \<open>
  \<^verbatim>\<open>s.split(sep)\<close> for a non-empty separator, which is what every call in the
  scripts passes (Python raises \<^verbatim>\<open>ValueError\<close> for the empty one): the pieces between
  the occurrences of \<open>sep\<close>, found from left to right without overlap.
\<close>

function str_split :: "pystr \<Rightarrow> pystr \<Rightarrow> pystr list" where
  "str_split sep [] = [[]]"
| "str_split sep (c # cs) =
     (if sep \<noteq> [] \<and> prefix sep (c # cs)
      then [] # str_split sep (drop (length sep) (c # cs))
      else (let r = str_split sep cs in (c # hd r) # tl r))"
  by pat_completeness auto
termination
  by (relation "measure (\<lambda>(sep, s). length s)") (auto simp: neq_Nil_conv)

text \<open>
  \<^verbatim>\<open>s.find(sub)\<close>: the lowest index at which \<open>sub\<close> occurs, or \<open>-1\<close>. \<open>first_occ\<close>
  is the same search with the index as an optional natural number.
\<close>

fun first_occ :: "pystr \<Rightarrow> pystr \<Rightarrow> nat option" where
  "first_occ sub [] = (if sub = [] then Some 0 else None)"
| "first_occ sub (c # cs) =
     (if prefix sub (c # cs) then Some 0 else map_option Suc (first_occ sub cs))"

definition str_find :: "pystr \<Rightarrow> pystr \<Rightarrow> int" where
  "str_find s sub = (case first_occ sub s of None \<Rightarrow> -1 | Some n \<Rightarrow> int n)"

section \<open>fix_macro_path.py and fix_macro_ident.py\<close>

definition hdr_ty :: pystr where
  \<open>hdr_ty = U ''($window:expr, $colors:expr, $theme_type:ty) => {{''\<close>

definition hdr_path :: pystr where
  \<open>hdr_path = U ''($window:expr, $colors:expr, $theme_type:path) => {{''\<close>

definition hdr_ident :: pystr where
  \<open>hdr_ident = U ''($window:expr, $colors:expr, $theme_type:ident) => {{''\<close>

text \<open>Each script reads the file, does one \<^verbatim>\<open>replace\<close> and writes the result back.\<close>

definition fix_macro_path :: "pystr \<Rightarrow> pystr" where
  "fix_macro_path content = str_replace content hdr_ty hdr_path"

definition fix_macro_ident :: "pystr \<Rightarrow> pystr" where
  "fix_macro_ident content = str_replace content hdr_path hdr_ident"

text \<open>
  The white space of \<^verbatim>\<open>str.strip()\<close> and of \<^verbatim>\<open>\s\<close> in a \<^verbatim>\<open>str\<close> pattern: the characters for
  which \<^verbatim>\<open>str.isspace()\<close> holds.
\<close>

definition is_space :: "nat \<Rightarrow> bool" where
  "is_space c \<longleftrightarrow>
     (9 \<le> c \<and> c \<le> 13) \<or> (28 \<le> c \<and> c \<le> 32) \<or> c = 133 \<or> c = 160 \<or> c = 5760 \<or>
     (8192 \<le> c \<and> c \<le> 8202) \<or> c = 8232 \<or> c = 8233 \<or> c = 8239 \<or> c = 8287 \<or> c = 12288"

definition str_strip :: "pystr \<Rightarrow> pystr" where
  "str_strip s = rev (dropWhile is_space (rev (dropWhile is_space s)))"

section \<open>add_logs.py\<close>

text \<open>
  The state of a run is the text held in \<^verbatim>\<open>content\<close> and the lines printed so far.
  Each of the two rules tests \<^verbatim>\<open>target in content\<close>, replaces or leaves the text, and
  prints one line; the script then writes \<^verbatim>\<open>content\<close> back.
\<close>

definition target1 :: pystr where
  \<open>target1 =
   U ''    fn open_hierarchy_window(&self) -> Result<()> {'' @ [10] @
   U ''        println!("'' @ [128640] @ U '' Opening Hierarchy Tool Window");'' @ [10] @
   [10] @
   U ''        // Get current theme colors'' @ [10] @
   U ''        let colors = get_current_theme_colors();'' @ [10] @
   [10] @
   U ''        // Check if already open in this thread'' @ [10] @
   U ''        let is_open = ACTIVE_TOOL_WINDOWS.with(|windows| {''\<close>

definition replacement1 :: pystr where
  \<open>replacement1 =
   U ''    fn open_hierarchy_window(&self) -> Result<()> {'' @ [10] @
   U ''        println!("'' @ [128640] @ U '' [open_hierarchy_window] Opening Hierarchy Tool Window");'' @ [10] @
   [10] @
   U ''        // Get current theme colors'' @ [10] @
   U ''        println!("'' @ [127912] @ U '' [open_hierarchy_window] Getting theme colors...");'' @ [10] @
   U ''        let colors = get_current_theme_colors();'' @ [10] @
   U ''        println!("'' @ [127912] @ U '' [open_hierarchy_window] Theme colors acquired.");'' @ [10] @
   [10] @
   U ''        // Check if already open in this thread'' @ [10] @
   U ''        println!("'' @ [128269] @ U '' [open_hierarchy_window] Checking ACTIVE_TOOL_WINDOWS...");'' @ [10] @
   U ''        let is_open = ACTIVE_TOOL_WINDOWS.with(|windows| {''\<close>

definition target2 :: pystr where
  \<open>target2 =
   U ''        // Create Slint window for Hierarchy tool'' @ [10] @
   U ''        let hierarchy_window = hierarchy::HierarchyToolWindow::new()?;'' @ [10] @
   U ''        '' @ [10] @
   U ''        // Apply theme'' @ [10] @
   U ''        apply_theme!(&hierarchy_window, &colors, hierarchy);''\<close>

definition replacement2 :: pystr where
  \<open>replacement2 =
   U ''        // Create Slint window for Hierarchy tool'' @ [10] @
   U ''        println!("'' @ [127959, 65039] @ U '' [open_hierarchy_window] Creating Slint window...");'' @ [10] @
   U ''        let hierarchy_window = hierarchy::HierarchyToolWindow::new()?;'' @ [10] @
   U ''        println!("'' @ [127959, 65039] @ U '' [open_hierarchy_window] Slint window created.");'' @ [10] @
   U ''        '' @ [10] @
   U ''        // Apply theme'' @ [10] @
   U ''        println!("'' @ [127912] @ U '' [open_hierarchy_window] Applying theme...");'' @ [10] @
   U ''        apply_theme!(&hierarchy_window, &colors, hierarchy);'' @ [10] @
   U ''        println!("'' @ [127912] @ U '' [open_hierarchy_window] Theme applied.");''\<close>

definition add_logs_rule1 :: "pystr \<times> pystr list \<Rightarrow> pystr \<times> pystr list" where
  "add_logs_rule1 = (\<lambda>(content, out).
     if str_in target1 content
     then (str_replace content target1 replacement1, out @ [U ''Applied replacement 1''])
     else (content, out @ [U ''Target 1 not found!'']))"

definition add_logs_rule2 :: "pystr \<times> pystr list \<Rightarrow> pystr \<times> pystr list" where
  "add_logs_rule2 = (\<lambda>(content, out).
     if str_in target2 content
     then (str_replace content target2 replacement2, out @ [U ''Applied replacement 2''])
     else (content, out @ [U ''Target 2 not found!'']))"

text \<open>The text written back and the lines printed.\<close>

definition add_logs :: "pystr \<Rightarrow> pystr \<times> pystr list" where
  "add_logs content = add_logs_rule2 (add_logs_rule1 (content, []))"

section \<open>refactor_listviews.py\<close>

definition original_hierarchy :: pystr where
  \<open>original_hierarchy =
   U ''        ListView {'' @ [10] @
   U ''            height: 400px;'' @ [10] @
   U ''            model: ['' @ [10] @
   U ''                { text: "Chapter 1: Introduction" },'' @ [10] @
   U ''                { text: "Chapter 2: Background" },'' @ [10] @
   U ''                { text: "Chapter 3: Main Story" },'' @ [10] @
   U ''                { text: "Chapter 4: Climax" },'' @ [10] @
   U ''                { text: "Chapter 5: Resolution" },'' @ [10] @
   U ''            ];'' @ [10] @
   U ''            delegate := VerticalBox {'' @ [10] @
   U ''                padding: 5px;'' @ [10] @
   U ''                Rectangle {'' @ [10] @
   U ''                    height: 30px;'' @ [10] @
   U ''                    background: Theme.secondary-bg;'' @ [10] @
   U ''                    border-radius: 4px;'' @ [10] @
   U ''                    Text {'' @ [10] @
   U ''                        text: root.current_item.text;'' @ [10] @
   U ''                        font-size: 12px;'' @ [10] @
   U ''                        vertical-alignment: center;'' @ [10] @
   U ''                    }'' @ [10] @
   U ''                }'' @ [10] @
   U ''            }'' @ [10] @
   U ''        }''\<close>

definition hierarchy_replacement :: pystr where
  \<open>hierarchy_replacement =
   U ''ListView {'' @ [10] @
   U ''            height: 400px;'' @ [10] @
   U ''            for item in ['' @ [10] @
   U ''                { text: "Chapter 1: Introduction" },'' @ [10] @
   U ''                { text: "Chapter 2: Background" },'' @ [10] @
   U ''                { text: "Chapter 3: Main Story" },'' @ [10] @
   U ''                { text: "Chapter 4: Climax" },'' @ [10] @
   U ''                { text: "Chapter 5: Resolution" },'' @ [10] @
   U ''            ] : VerticalBox {'' @ [10] @
   U ''                padding: 5px;'' @ [10] @
   U ''                Rectangle {'' @ [10] @
   U ''                    height: 30px;'' @ [10] @
   U ''                    background: Theme.secondary-bg;'' @ [10] @
   U ''                    border-radius: 4px;'' @ [10] @
   U ''                    Text {'' @ [10] @
   U ''                        text: item.text;'' @ [10] @
   U ''                        font-size: 12px;'' @ [10] @
   U ''                        vertical-alignment: center;'' @ [10] @
   U ''                    }'' @ [10] @
   U ''                }'' @ [10] @
   U ''            }'' @ [10] @
   U ''        }''\<close>

definition anchor :: pystr where
  \<open>anchor = U ''export component StructureTool''\<close>

text \<open>The five replacements applied to \<^verbatim>\<open>parts[1]\<close>, in the order of the script.\<close>

definition structure_rewrite :: "pystr \<Rightarrow> pystr" where
  \<open>structure_rewrite structure_part =
     (let p1 = str_replace structure_part (U ''model: ['') (U ''for item in ['');
          p2 = str_replace p1 (U ''];'') (U '']:'');
          p3 = str_replace p2 (U ''delegate := Rectangle {'') (U ''Rectangle {'');
          p4 = str_replace p3 (U ''root.current_item'') (U ''item'')
      in str_replace p4 (U ''margin: 4px;'') [])\<close>

text \<open>
  The StructureTool step: split at the anchor and, when there is more
  than one part, rejoin \<^verbatim>\<open>parts[0]\<close>, the anchor and the rewritten \<^verbatim>\<open>parts[1]\<close>.
\<close>

definition structure_step :: "pystr \<Rightarrow> pystr" where
  "structure_step content =
     (let parts = str_split anchor content in
      if length parts > 1
      then parts ! 0 @ anchor @ structure_rewrite (parts ! 1)
      else content)"

text \<open>
  The whole script: the HierarchyTool replacement, then the StructureTool step. The
  line loop between them only reads \<^verbatim>\<open>content\<close>: it assigns to its own loop variable
  and appends nothing to \<^verbatim>\<open>new_lines\<close>, which is not used afterwards.
\<close>

definition refactor_listviews :: "pystr \<Rightarrow> pystr" where
  "refactor_listviews content =
     structure_step (str_replace content original_hierarchy hierarchy_replacement)"

section \<open>refactor_modules.py\<close>

text \<open>
  \<^verbatim>\<open>\w\<close> in a Python 3 \<^verbatim>\<open>str\<close> pattern: the ASCII letters, digits and underscore, and
  the alphanumeric characters of Unicode beyond ASCII. That table belongs to the Python runtime,
  not to the repository; it is the parameter \<open>uni\<close>.
\<close>

definition is_word :: "(nat \<Rightarrow> bool) \<Rightarrow> nat \<Rightarrow> bool" where
  "is_word uni c \<longleftrightarrow>
     (48 \<le> c \<and> c \<le> 57) \<or> (65 \<le> c \<and> c \<le> 90) \<or> c = 95 \<or> (97 \<le> c \<and> c \<le> 122) \<or>
     (128 \<le> c \<and> uni c)"

text \<open>
  A pattern of the shape \<^verbatim>\<open>pre\w+post\<close> with literal \<open>pre\<close> and \<open>post\<close>, matched at the
  start of \<open>s\<close>: the length of the match. \<^verbatim>\<open>\w+\<close> is greedy; in both patterns of the
  script \<open>post\<close> starts with a character that is not a word character (a space, a closing
  parenthesis), so giving characters back can never make \<open>post\<close> match and the longest run
  of word characters is the only candidate.
\<close>

definition match_words :: "(nat \<Rightarrow> bool) \<Rightarrow> pystr \<Rightarrow> pystr \<Rightarrow> pystr \<Rightarrow> nat option" where
  "match_words uni pre post s =
     (if prefix pre s
      then (let r = drop (length pre) s; w = takeWhile (is_word uni) r in
            if w \<noteq> [] \<and> prefix post (drop (length w) r)
            then Some (length pre + length w + length post)
            else None)
      else None)"

text \<open>
  \<^verbatim>\<open>re.sub(pattern, repl, s)\<close> for such a pattern and a replacement without
  backslashes: every match, found from left to right without overlap, is replaced.
\<close>

function re_sub_words :: "(nat \<Rightarrow> bool) \<Rightarrow> pystr \<Rightarrow> pystr \<Rightarrow> pystr \<Rightarrow> pystr \<Rightarrow> pystr" where
  "re_sub_words uni pre post repl [] = []"
| "re_sub_words uni pre post repl (c # cs) =
     (case match_words uni pre post (c # cs) of
        Some n \<Rightarrow> repl @ re_sub_words uni pre post repl (drop n (c # cs))
      | None \<Rightarrow> c # re_sub_words uni pre post repl cs)"
  by pat_completeness auto
termination
  by (relation "measure (\<lambda>(uni, pre, post, repl, s). length s)")
     (auto simp: match_words_def Let_def split: if_splits)

definition sep :: pystr where
  \<open>sep = U ''slint::slint! {''\<close>

definition tools :: "(pystr \<times> pystr) list" where
  \<open>tools =
    [(U ''Hierarchy'', U ''hierarchy''),
     (U ''Codex'', U ''codex''),
     (U ''Brainstorming'', U ''brainstorming''),
     (U ''Analysis'', U ''analysis''),
     (U ''Plot'', U ''plot''),
     (U ''Notes'', U ''notes''),
     (U ''Research'', U ''research''),
     (U ''Structure'', U ''structure'')]\<close>

text \<open>
  The brace count over \<^verbatim>\<open>enumerate(part)\<close>: \<open>j\<close> is the index, \<open>depth\<close> the counter, and
  the result is \<^verbatim>\<open>end_index\<close>, which stays \<open>-1\<close> when the loop runs to the end of
  \<^verbatim>\<open>part\<close>.
\<close>

fun scan_from :: "int \<Rightarrow> int \<Rightarrow> pystr \<Rightarrow> int" where
  "scan_from j depth [] = -1"
| "scan_from j depth (c # cs) =
     (if c = 123 then scan_from (j + 1) (depth + 1) cs
      else if c = 125 then (if depth - 1 = 0 then j else scan_from (j + 1) (depth - 1) cs)
      else scan_from (j + 1) depth cs)"

definition brace_scan :: "pystr \<Rightarrow> int" where
  "brace_scan part = scan_from 0 1 part"

definition revert_import :: "(nat \<Rightarrow> bool) \<Rightarrow> pystr \<Rightarrow> pystr" where
  \<open>revert_import uni part =
     re_sub_words uni (U ''import { SlintThemeColors as '') (U '' }'')
       (U ''import { SlintThemeColors }'') part\<close>

definition revert_callback :: "(nat \<Rightarrow> bool) \<Rightarrow> pystr \<Rightarrow> pystr" where
  \<open>revert_callback uni part =
     re_sub_words uni (U ''callback set_theme('') (U '');'')
       (U ''callback set_theme(SlintThemeColors);'') part\<close>

text \<open>
  The wrapping of one part, from the brace count on: what is appended to
  \<^verbatim>\<open>new_content\<close> and what is printed.
\<close>

definition wrap_block :: "pystr \<Rightarrow> pystr \<Rightarrow> pystr \<Rightarrow> pystr \<times> pystr list" where
  \<open>wrap_block tool_name mod_name part =
     (let end_index = brace_scan part in
      if end_index \<noteq> -1
      then (let slint_content = take (nat end_index) part;
                rest = drop (nat (end_index + 1)) part;
                block = U ''pub mod '' @ mod_name @ U '' {'' @ [10] @
                        U ''    slint::slint! {'' @ [10] @ slint_content @ [10] @
                        U ''    }'' @ [10] @ U ''}'' @ [10]
            in (block @ rest, []))
      else (sep @ part, [U ''Error: Could not find closing brace for '' @ tool_name]))\<close>

text \<open>
  The loop \<^verbatim>\<open>for i, part in enumerate(parts[1:])\<close>, with \<^verbatim>\<open>new_content\<close> and the printed
  lines as its state.
\<close>

fun wrap_parts :: "(nat \<Rightarrow> bool) \<Rightarrow> nat \<Rightarrow> pystr list \<Rightarrow> pystr \<times> pystr list \<Rightarrow> pystr \<times> pystr list" where
  "wrap_parts uni i [] st = st"
| "wrap_parts uni i (part # ps) (new_content, out) =
     (if i < length tools
      then (let (tool_name, mod_name) = tools ! i;
                part1 = revert_import uni part;
                part2 = revert_callback uni part1;
                (emitted, printed) = wrap_block tool_name mod_name part2
            in wrap_parts uni (i + 1) ps (new_content @ emitted, out @ printed))
      else wrap_parts uni (i + 1) ps (new_content @ sep @ part, out))"

text \<open>\<^verbatim>\<open>tool_name.lower()\<close>, on the ASCII names of \<open>tools\<close>.\<close>

definition lower :: "pystr \<Rightarrow> pystr" where
  "lower s = map (\<lambda>c. if 65 \<le> c \<and> c \<le> 90 then c + 32 else c) s"

text \<open>
  Steps 4 and 5 of the script. The two patterns of step 5 are regular expressions in which
  every special character is escaped, used with replacements without backslashes, so
  \<^verbatim>\<open>re.sub\<close> with them is the replacement of a literal.
\<close>

definition update_enum :: "pystr \<times> pystr \<Rightarrow> pystr \<Rightarrow> pystr" where
  \<open>update_enum = (\<lambda>(tool_name, mod_name) content.
     str_replace content
       (tool_name @ U ''('' @ tool_name @ U ''ToolWindow)'')
       (tool_name @ U ''('' @ mod_name @ U ''::'' @ tool_name @ U ''ToolWindow)''))\<close>

definition update_calls :: "pystr \<times> pystr \<Rightarrow> pystr \<Rightarrow> pystr" where
  \<open>update_calls = (\<lambda>(tool_name, mod_name) content.
     (let content1 = str_replace content
            (U ''ToolWindowHandle::'' @ tool_name @ U ''(w) => apply_theme!(w, colors)'')
            (U ''ToolWindowHandle::'' @ tool_name @ U ''(w) => apply_theme!(w, colors, '' @
               mod_name @ U ''::SlintThemeColors)'');
          var_name = lower tool_name @ U ''_window''
      in str_replace content1
            (U ''apply_theme!(&'' @ var_name @ U '', &colors);'')
            (U ''apply_theme!(&'' @ var_name @ U '', &colors, '' @ mod_name @
               U ''::SlintThemeColors);'')))\<close>

text \<open>The whole script: the text written back and the lines printed.\<close>

definition refactor_modules :: "(nat \<Rightarrow> bool) \<Rightarrow> pystr \<Rightarrow> pystr \<times> pystr list" where
  "refactor_modules uni content =
     (let content1 = str_replace content hdr_ident hdr_path;
          parts = str_split sep content1;
          (new_content, out) = wrap_parts uni 0 (tl parts) (parts ! 0, []);
          content4 = fold update_enum tools new_content;
          content5 = fold update_calls tools content4
      in (content5, out))"


text \<open>
  The running depth in the words of the specification: start from a depth, add one for
  every opening brace and subtract one for every closing brace of the text read so far.
\<close>

fun running_depth :: "int \<Rightarrow> pystr \<Rightarrow> int" where
  "running_depth d [] = d"
| "running_depth d (c # cs) =
     running_depth (if c = 123 then d + 1 else if c = 125 then d - 1 else d) cs"

text \<open>
  The unbalanced condition in the words of the claim: from the depth \<open>d\<close> on, the running
  depth is not 0 after any character of the text.
\<close>

fun stays_open :: "int \<Rightarrow> pystr \<Rightarrow> bool" where
  "stays_open d [] = True"
| "stays_open d (c # cs) =
     (let d' = (if c = 123 then d + 1 else if c = 125 then d - 1 else d)
      in d' \<noteq> 0 \<and> stays_open d' cs)"

section \<open>fix_build.py\<close>

text \<open>\<^verbatim>\<open>f.readlines()\<close>: the lines of the text, each with its line feed.\<close>

fun readlines :: "pystr \<Rightarrow> pystr list" where
  "readlines [] = []"
| "readlines (c # cs) =
     (if c = 10 then [10] # readlines cs
      else (case readlines cs of [] \<Rightarrow> [[c]] | l # ls \<Rightarrow> (c # l) # ls))"

text \<open>
  The search loops \<^verbatim>\<open>for i in range(start, len(lines))\<close> that stop at the first line
  containing a pattern: the index found, or \<open>None\<close> where the script keeps \<open>-1\<close>.
\<close>

fun first_line :: "pystr \<Rightarrow> pystr list \<Rightarrow> nat option" where
  "first_line pat [] = None"
| "first_line pat (l # ls) =
     (if str_in pat l then Some 0 else map_option Suc (first_line pat ls))"

definition find_line :: "pystr \<Rightarrow> nat \<Rightarrow> pystr list \<Rightarrow> nat option" where
  "find_line pat start ls = map_option (\<lambda>k. start + k) (first_line pat (drop start ls))"

text \<open>
  The loop from \<^verbatim>\<open>body_start\<close> on: a line with the \<^verbatim>\<open>invoke_set_theme\<close> call loses its
  semicolons; the first line that (after that) is \<^verbatim>\<open>};\<close> up to surrounding white space
  gets the second brace and ends the loop.
\<close>

fun close_body :: "pystr list \<Rightarrow> pystr list" where
  \<open>close_body [] = []\<close>
| \<open>close_body (l # ls) =
     (let l1 = (if str_in (U ''$window.invoke_set_theme(slint_colors);'') l
                then str_replace l (U '';'') [] else l)
      in if str_strip l1 = U ''};''
         then str_replace l1 (U ''};'') (U ''}};'') # ls
         else l1 # close_body ls)\<close>

definition fix_macro_lines :: "pystr list \<Rightarrow> pystr list" where
  \<open>fix_macro_lines lines =
     (case find_line (U ''macro_rules! apply_theme'') 0 lines of
        None \<Rightarrow> lines
      | Some macro_start \<Rightarrow>
          (case find_line (U ''=> {'') macro_start lines of
             None \<Rightarrow> lines
           | Some body_start \<Rightarrow>
               (let lines1 = lines[body_start :=
                               str_replace (lines ! body_start) (U ''=> {'') (U ''=> {{'')]
                in take body_start lines1 @ close_body (drop body_start lines1))))\<close>

definition insertion :: "pystr list" where
  \<open>insertion =
    [U ''    import { Theme } from "../styles.slint";'' @ [10],
     U ''    struct SlintThemeColors {'' @ [10],
     U ''        primary-bg: color,'' @ [10],
     U ''        secondary-bg: color,'' @ [10],
     U ''        accent: color,'' @ [10],
     U ''        text-primary: color,'' @ [10],
     U ''        text-secondary: color,'' @ [10],
     U ''        border: color,'' @ [10],
     U ''        menu-bg: color,'' @ [10],
     U ''        toolbar-bg: color,'' @ [10],
     U ''        status-bg: color,'' @ [10],
     U ''        editor-bg: color,'' @ [10],
     U ''        title-bg: color,'' @ [10],
     U ''        ribbon-bg: color,'' @ [10],
     U ''        dropdown-bg: color,'' @ [10],
     U ''    }'' @ [10]]\<close>

definition std_import :: pystr where
  \<open>std_import = U ''from "std-widgets.slint";''\<close>

text \<open>\<^verbatim>\<open>lines[import_line+1:import_line+1] = new\<close>: the lines \<open>new\<close> are put after the import line.\<close>

definition insert_after :: "nat \<Rightarrow> pystr list \<Rightarrow> pystr list \<Rightarrow> pystr list" where
  "insert_after import_line new lines =
     take (import_line + 1) lines @ new @ drop (import_line + 1) lines"

definition insert_struct :: "pystr list \<Rightarrow> pystr list" where
  "insert_struct lines =
     (case find_line sep 0 lines of
        None \<Rightarrow> lines
      | Some slint_start \<Rightarrow>
          (case find_line std_import slint_start lines of
             None \<Rightarrow> lines
           | Some import_line \<Rightarrow> insert_after import_line insertion lines))"

text \<open>
  The body of the loop over \<^verbatim>\<open>slint_blocks[1:]\<close>. The indices in \<^verbatim>\<open>slint_blocks\<close> are
  computed once, before the loop inserts lines, and are used as they are.
\<close>

definition add_theme_import :: "nat \<Rightarrow> pystr list \<Rightarrow> pystr list" where
  \<open>add_theme_import block_start lines =
     (case find_line std_import block_start lines of
        None \<Rightarrow> lines
      | Some import_line \<Rightarrow>
          insert_after import_line [U ''    import { Theme } from "../styles.slint";'' @ [10]] lines)\<close>

text \<open>The whole script; \<^verbatim>\<open>f.writelines(lines)\<close> writes the lines one after the other.\<close>

definition fix_build :: "pystr \<Rightarrow> pystr" where
  "fix_build content =
     (let lines = readlines content;
          lines1 = fix_macro_lines lines;
          lines2 = insert_struct lines1;
          slint_blocks = filter (\<lambda>i. str_in sep (lines2 ! i)) [0..<length lines2];
          lines3 = fold add_theme_import (tl slint_blocks) lines2
      in concat lines3)"

section \<open>fix_conflicts.py\<close>

text \<open>The list \<^verbatim>\<open>tools\<close> of fix_conflicts.py (refactor_modules.py has its own).\<close>

definition theme_tools :: "(pystr \<times> pystr) list" where
  \<open>theme_tools =
    [(U ''Hierarchy'', U ''HierarchyThemeColors''),
     (U ''Codex'', U ''CodexThemeColors''),
     (U ''Brainstorming'', U ''BrainstormingThemeColors''),
     (U ''Analysis'', U ''AnalysisThemeColors''),
     (U ''Plot'', U ''PlotThemeColors''),
     (U ''Notes'', U ''NotesThemeColors''),
     (U ''Research'', U ''ResearchThemeColors''),
     (U ''Structure'', U ''StructureThemeColors'')]\<close>

text \<open>The loop \<^verbatim>\<open>for i, part in enumerate(parts[1:])\<close> with \<^verbatim>\<open>new_content\<close> as its state.\<close>

fun rename_parts :: "nat \<Rightarrow> pystr list \<Rightarrow> pystr \<Rightarrow> pystr" where
  \<open>rename_parts i [] new_content = new_content\<close>
| \<open>rename_parts i (part # ps) new_content =
     (if i < length theme_tools
      then (let (tool_name, theme_type) = theme_tools ! i;
                part1 = str_replace part
                  (U ''import { SlintThemeColors } from "../theme_types.slint";'')
                  (U ''import { SlintThemeColors as '' @ theme_type @
                     U '' } from "../theme_types.slint";'');
                part2 = str_replace part1
                  (U ''callback set_theme(SlintThemeColors);'')
                  (U ''callback set_theme('' @ theme_type @ U '');'')
            in rename_parts (i + 1) ps (new_content @ sep @ part2))
      else rename_parts (i + 1) ps (new_content @ sep @ part))\<close>

definition add_type_arg :: "pystr \<times> pystr \<Rightarrow> pystr \<Rightarrow> pystr" where
  \<open>add_type_arg = (\<lambda>(tool_name, theme_type) content.
     (let pattern = U ''ToolWindowHandle::'' @ tool_name @ U ''(w) => apply_theme!(w, colors)'';
          replacement = U ''ToolWindowHandle::'' @ tool_name @
                          U ''(w) => apply_theme!(w, colors, '' @ theme_type @ U '')'';
          content1 = str_replace content (pattern @ U '';'') replacement
      in str_replace content1 pattern replacement))\<close>

definition add_type_arg_open :: "pystr \<times> pystr \<Rightarrow> pystr \<Rightarrow> pystr" where
  \<open>add_type_arg_open = (\<lambda>(tool_name, theme_type) content.
     (let var_name = lower tool_name @ U ''_window'';
          pattern = U ''apply_theme!(&'' @ var_name @ U '', &colors);'';
          replacement = U ''apply_theme!(&'' @ var_name @ U '', &colors, '' @ theme_type @ U '');''
      in str_replace content pattern replacement))\<close>

text \<open>
  Step 1 of the script, on the definition of the macro: the parameter
  \<^verbatim>\<open>$theme_type:ty\<close>, the type of \<^verbatim>\<open>slint_colors\<close>, and \<^verbatim>\<open>}};\<close> turned into \<^verbatim>\<open>}}\<close>.
\<close>

definition fix_macro_definition :: "pystr \<Rightarrow> pystr" where
  \<open>fix_macro_definition content =
     (let content1 = str_replace content
            (U ''($window:expr, $colors:expr) => {{'') hdr_ty;
          content2 = str_replace content1
            (U ''let slint_colors = SlintThemeColors {'') (U ''let slint_colors = <$theme_type> {'')
      in str_replace content2 (U ''}};'') (U ''}}''))\<close>

text \<open>The whole script.\<close>

definition fix_conflicts :: "pystr \<Rightarrow> pystr" where
  \<open>fix_conflicts content =
     (let content3 = fix_macro_definition content;
          parts = str_split sep content3;
          new_content = rename_parts 0 (tl parts) (parts ! 0);
          content4 = fold add_type_arg theme_tools new_content
      in fold add_type_arg_open theme_tools content4)\<close>

section \<open>Reading and writing the file\<close>

text \<open>
  Every script opens the file in text mode with the default \<^verbatim>\<open>newline=None\<close>. The file
  is modelled by the characters its bytes stand for in UTF-8, the encoding the
  specification names. A text with a character that UTF-8 cannot encode (a surrogate)
  makes the write raise \<^verbatim>\<open>UnicodeEncodeError\<close>, and no file content decodes to such a
  character: both are the result \<open>None\<close>.
\<close>

definition encodable :: "nat \<Rightarrow> bool" where
  "encodable c \<longleftrightarrow> c < 55296 \<or> (57343 < c \<and> c < 1114112)"

text \<open>
  Writing turns each line feed into the line separator of the platform (\<^verbatim>\<open>os.linesep\<close>,
  the parameter \<open>linesep\<close>).
\<close>

definition newline_out :: "pystr \<Rightarrow> pystr \<Rightarrow> pystr" where
  "newline_out linesep T = concat (map (\<lambda>c. if c = 10 then linesep else [c]) T)"

text \<open>Reading turns each of \<^verbatim>\<open>\r\n\<close>, \<^verbatim>\<open>\r\<close> and \<^verbatim>\<open>\n\<close> into a line feed.\<close>

fun newline_in :: "pystr \<Rightarrow> pystr" where
  "newline_in [] = []"
| "newline_in [c] = (if c = 13 then [10] else [c])"
| "newline_in (c # d # ds) =
     (if c = 13
      then (if d = 10 then 10 # newline_in ds else 10 # newline_in (d # ds))
      else c # newline_in (d # ds))"

text \<open>\<^verbatim>\<open>f.write(content)\<close> and \<^verbatim>\<open>f.read()\<close>: the file written, and the text read.\<close>

definition save :: "pystr \<Rightarrow> pystr \<Rightarrow> pystr option" where
  "save linesep T = (if list_all encodable T then Some (newline_out linesep T) else None)"

definition load :: "pystr \<Rightarrow> pystr option" where
  "load F = (if list_all encodable F then Some (newline_in F) else None)"

section \<open>remove_logs.py\<close>







section \<open>The end-to-end scenario of the specification\<close>

text \<open>
  The input and the expected output of the scenario, as the specification writes them,
  and the same macro laid out over several lines, as fix_build.py expects it.
\<close>

definition scenario_input :: pystr where
  \<open>scenario_input =
     U ''macro_rules! apply_theme { ($window:expr, $colors:expr) => { BODY }; }''\<close>

definition scenario_expected :: pystr where
  \<open>scenario_expected =
     U ''macro_rules! apply_theme { ($window:expr, $colors:expr, $theme_type:ty) => {{ BODY }}; }''\<close>

definition scenario_lines :: pystr where
  \<open>scenario_lines =
     U ''macro_rules! apply_theme {'' @ [10] @
     U ''    ($window:expr, $colors:expr) => {'' @ [10] @
     U ''        BODY'' @ [10] @
     U ''    };'' @ [10] @
     U ''}'' @ [10]\<close>

section \<open>fix_tool_windows.py\<close>

text \<open>
  A run of the script ends in one of two ways: the process exits with a status before
  the file is written, or the file is written. Both carry the lines printed.
\<close>

datatype outcome = Exited int "pystr list" | Written pystr "pystr list"

definition imports_to_add :: pystr where
  \<open>imports_to_add =
     U ''use std::cell::RefCell;'' @ [10] @
     U ''use std::collections::HashMap;'' @ [10] @
     U ''use slint::ComponentHandle;'' @ [10] @
     U ''use crate::ui::theme_manager::{get_current_theme_colors, ThemeColors};''\<close>

definition slint_struct :: pystr where
  \<open>slint_struct =
     [10] @
     U ''    export struct SlintThemeColors {'' @ [10] @
     U ''        primary-bg: color,'' @ [10] @
     U ''        secondary-bg: color,'' @ [10] @
     U ''        accent: color,'' @ [10] @
     U ''        text-primary: color,'' @ [10] @
     U ''        text-secondary: color,'' @ [10] @
     U ''        border: color,'' @ [10] @
     U ''        menu-bg: color,'' @ [10] @
     U ''        toolbar-bg: color,'' @ [10] @
     U ''        status-bg: color,'' @ [10] @
     U ''        editor-bg: color,'' @ [10] @
     U ''        title-bg: color,'' @ [10] @
     U ''        ribbon-bg: color,'' @ [10] @
     U ''        dropdown-bg: color,'' @ [10] @
     U ''    }'' @ [10]\<close>

definition callback_code :: pystr where
  \<open>callback_code =
     [10] @
     U ''        callback close_requested();'' @ [10] @
     U ''        callback set_theme(SlintThemeColors);'' @ [10] @
     U ''        set_theme(c) => {'' @ [10] @
     U ''            Theme.primary-bg = c.primary-bg;'' @ [10] @
     U ''            Theme.secondary-bg = c.secondary-bg;'' @ [10] @
     U ''            Theme.accent = c.accent;'' @ [10] @
     U ''            Theme.text-primary = c.text-primary;'' @ [10] @
     U ''            Theme.text-secondary = c.text-secondary;'' @ [10] @
     U ''            Theme.border = c.border;'' @ [10] @
     U ''            Theme.menu-bg = c.menu-bg;'' @ [10] @
     U ''            Theme.toolbar-bg = c.toolbar-bg;'' @ [10] @
     U ''            Theme.status-bg = c.status-bg;'' @ [10] @
     U ''            Theme.editor-bg = c.editor-bg;'' @ [10] @
     U ''            Theme.title-bg = c.title-bg;'' @ [10] @
     U ''            Theme.ribbon-bg = c.ribbon-bg;'' @ [10] @
     U ''            Theme.dropdown-bg = c.dropdown-bg;'' @ [10] @
     U ''        }'' @ [10]\<close>

definition helper_code :: pystr where
  \<open>helper_code =
     [10] @
     U ''fn hex_to_color(hex: &str) -> slint::Color {'' @ [10] @
     U ''    let hex = hex.trim_start_matches('' @ [39] @ U ''#'' @ [39] @ U '');'' @ [10] @
     U ''    if let Ok(val) = u32::from_str_radix(hex, 16) {'' @ [10] @
     U ''        let r = ((val >> 16) & 0xFF) as u8;'' @ [10] @
     U ''        let g = ((val >> 8) & 0xFF) as u8;'' @ [10] @
     U ''        let b = (val & 0xFF) as u8;'' @ [10] @
     U ''        slint::Color::from_rgb_u8(r, g, b)'' @ [10] @
     U ''    } else {'' @ [10] @
     U ''        slint::Color::from_rgb_u8(255, 255, 255)'' @ [10] @
     U ''    }'' @ [10] @
     U ''}'' @ [10] @
     [10] @
     U ''// Macro to apply theme to any window via invoke_set_theme'' @ [10] @
     U ''macro_rules! apply_theme {'' @ [10] @
     U ''    ($window:expr, $colors:expr) => {'' @ [10] @
     U ''        let slint_colors = SlintThemeColors {'' @ [10] @
     U ''            primary_bg: hex_to_color(&$colors.primary_bg),'' @ [10] @
     U ''            secondary_bg: hex_to_color(&$colors.secondary_bg),'' @ [10] @
     U ''            accent: hex_to_color(&$colors.accent),'' @ [10] @
     U ''            text_primary: hex_to_color(&$colors.text_primary),'' @ [10] @
     U ''            text_secondary: hex_to_color(&$colors.text_secondary),'' @ [10] @
     U ''            border: hex_to_color(&$colors.border),'' @ [10] @
     U ''            menu_bg: hex_to_color(&$colors.menu_bg),'' @ [10] @
     U ''            toolbar_bg: hex_to_color(&$colors.toolbar_bg),'' @ [10] @
     U ''            status_bg: hex_to_color(&$colors.status_bg),'' @ [10] @
     U ''            editor_bg: hex_to_color(&$colors.editor_bg),'' @ [10] @
     U ''            title_bg: hex_to_color(&$colors.title_bg),'' @ [10] @
     U ''            ribbon_bg: hex_to_color(&$colors.ribbon_bg),'' @ [10] @
     U ''            dropdown_bg: hex_to_color(&$colors.dropdown_bg),'' @ [10] @
     U ''        };'' @ [10] @
     U ''        $window.invoke_set_theme(slint_colors);'' @ [10] @
     U ''    };'' @ [10] @
     U ''}'' @ [10] @
     [10] @
     U ''enum ToolWindowHandle {'' @ [10] @
     U ''    Hierarchy(HierarchyToolWindow),'' @ [10] @
     U ''    Codex(CodexToolWindow),'' @ [10] @
     U ''    Brainstorming(BrainstormingToolWindow),'' @ [10] @
     U ''    Analysis(AnalysisToolWindow),'' @ [10] @
     U ''    Plot(PlotToolWindow),'' @ [10] @
     U ''    Notes(NotesToolWindow),'' @ [10] @
     U ''    Research(ResearchToolWindow),'' @ [10] @
     U ''    Structure(StructureToolWindow),'' @ [10] @
     U ''}'' @ [10] @
     [10] @
     U ''impl ToolWindowHandle {'' @ [10] @
     U ''    fn hide(&self) -> Result<(), slint::PlatformError> {'' @ [10] @
     U ''        match self {'' @ [10] @
     U ''            ToolWindowHandle::Hierarchy(w) => w.hide(),'' @ [10] @
     U ''            ToolWindowHandle::Codex(w) => w.hide(),'' @ [10] @
     U ''            ToolWindowHandle::Brainstorming(w) => w.hide(),'' @ [10] @
     U ''            ToolWindowHandle::Analysis(w) => w.hide(),'' @ [10] @
     U ''            ToolWindowHandle::Plot(w) => w.hide(),'' @ [10] @
     U ''            ToolWindowHandle::Notes(w) => w.hide(),'' @ [10] @
     U ''            ToolWindowHandle::Research(w) => w.hide(),'' @ [10] @
     U ''            ToolWindowHandle::Structure(w) => w.hide(),'' @ [10] @
     U ''        }'' @ [10] @
     U ''    }'' @ [10] @
     [10] @
     U ''    fn show(&self) -> Result<(), slint::PlatformError> {'' @ [10] @
     U ''        match self {'' @ [10] @
     U ''            ToolWindowHandle::Hierarchy(w) => w.show(),'' @ [10] @
     U ''            ToolWindowHandle::Codex(w) => w.show(),'' @ [10] @
     U ''            ToolWindowHandle::Brainstorming(w) => w.show(),'' @ [10] @
     U ''            ToolWindowHandle::Analysis(w) => w.show(),'' @ [10] @
     U ''            ToolWindowHandle::Plot(w) => w.show(),'' @ [10] @
     U ''            ToolWindowHandle::Notes(w) => w.show(),'' @ [10] @
     U ''            ToolWindowHandle::Research(w) => w.show(),'' @ [10] @
     U ''            ToolWindowHandle::Structure(w) => w.show(),'' @ [10] @
     U ''        }'' @ [10] @
     U ''    }'' @ [10] @
     U ''    '' @ [10] @
     U ''    fn apply_theme(&self, colors: &ThemeColors) {'' @ [10] @
     U ''        match self {'' @ [10] @
     U ''            ToolWindowHandle::Hierarchy(w) => apply_theme!(w, colors),'' @ [10] @
     U ''            ToolWindowHandle::Codex(w) => apply_theme!(w, colors),'' @ [10] @
     U ''            ToolWindowHandle::Brainstorming(w) => apply_theme!(w, colors),'' @ [10] @
     U ''            ToolWindowHandle::Analysis(w) => apply_theme!(w, colors),'' @ [10] @
     U ''            ToolWindowHandle::Plot(w) => apply_theme!(w, colors),'' @ [10] @
     U ''            ToolWindowHandle::Notes(w) => apply_theme!(w, colors),'' @ [10] @
     U ''            ToolWindowHandle::Research(w) => apply_theme!(w, colors),'' @ [10] @
     U ''            ToolWindowHandle::Structure(w) => apply_theme!(w, colors),'' @ [10] @
     U ''        }'' @ [10] @
     U ''    }'' @ [10] @
     U ''}'' @ [10] @
     [10] @
     U ''thread_local! {'' @ [10] @
     U ''    static ACTIVE_TOOL_WINDOWS: RefCell<HashMap<ToolType, ToolWindowHandle>> = RefCell::new(HashMap::new());'' @ [10] @
     U ''}'' @ [10]\<close>

definition regex_pattern1 :: "pystr \<Rightarrow> pystr \<Rightarrow> pystr \<Rightarrow> pystr list" where
  \<open>regex_pattern1 tool_name tool_var tool_type =
    [U ''fn open_'' @ tool_var @ U ''_window(&self) -> Result<()> {'',
     U ''println!("'' @ [128640] @ U '' Opening '' @ tool_name @ U '' Tool Window");'',
     U ''// Create Slint window for '' @ tool_name @ U '' tool'',
     U ''let '' @ tool_var @ U ''_window = '' @ tool_name @ U ''ToolWindow::new()?;'',
     U ''// Set up callbacks'',
     tool_var @ U ''_window.on_close_requested(move || {'',
     U ''// Simple close action for now'',
     U ''});'']\<close>

definition regex_pattern2 :: "pystr \<Rightarrow> pystr \<Rightarrow> pystr \<Rightarrow> pystr list" where
  \<open>regex_pattern2 tool_name tool_var tool_type =
    [U ''// Show the window'',
     tool_var @ U ''_window.run()?;'',
     U ''// Store weak reference'',
     U ''let mut windows = self.tool_windows.lock().unwrap();'',
     U ''windows.insert(ToolType::'' @ tool_type @ U '', true);'']\<close>

definition tool_replacement1 :: "pystr \<Rightarrow> pystr \<Rightarrow> pystr \<Rightarrow> pystr" where
  \<open>tool_replacement1 tool_name tool_var tool_type =
     U ''    /// Open '' @ tool_name @ U '' tool window'' @ [10] @
     U ''    fn open_'' @ tool_var @ U ''_window(&self) -> Result<()> {'' @ [10] @
     U ''        println!("'' @ [128640] @ U '' Opening '' @ tool_name @ U '' Tool Window");'' @ [10] @
     [10] @
     U ''        // Get current theme colors'' @ [10] @
     U ''        let colors = get_current_theme_colors();'' @ [10] @
     [10] @
     U ''        // Check if already open in this thread'' @ [10] @
     U ''        let is_open = ACTIVE_TOOL_WINDOWS.with(|windows| {'' @ [10] @
     U ''            if let Some(window) = windows.borrow().get(&ToolType::'' @ tool_type @ U '') {'' @ [10] @
     U ''                println!("'' @ [9888, 65039] @ U '' '' @ tool_name @ U '' tool window already open - showing it");'' @ [10] @
     U ''                let _ = window.show();'' @ [10] @
     U ''                // Also update theme on existing window'' @ [10] @
     U ''                window.apply_theme(&colors);'' @ [10] @
     U ''                true'' @ [10] @
     U ''            } else {'' @ [10] @
     U ''                false'' @ [10] @
     U ''            }'' @ [10] @
     U ''        });'' @ [10] @
     [10] @
     U ''        if is_open {'' @ [10] @
     U ''            return Ok(());'' @ [10] @
     U ''        }'' @ [10] @
     [10] @
     U ''        // Create Slint window for '' @ tool_name @ U '' tool'' @ [10] @
     U ''        let '' @ tool_var @ U ''_window = '' @ tool_name @ U ''ToolWindow::new()?;'' @ [10] @
     U ''        '' @ [10] @
     U ''        // Apply theme'' @ [10] @
     U ''        apply_theme!(&'' @ tool_var @ U ''_window, &colors);'' @ [10] @
     [10] @
     U ''        // Set up callbacks'' @ [10] @
     U ''        let window_weak = '' @ tool_var @ U ''_window.as_weak();'' @ [10] @
     U ''        '' @ tool_var @ U ''_window.on_close_requested(move || {'' @ [10] @
     U ''            ACTIVE_TOOL_WINDOWS.with(|windows| {'' @ [10] @
     U ''                windows.borrow_mut().remove(&ToolType::'' @ tool_type @ U '');'' @ [10] @
     U ''            });'' @ [10] @
     U ''            if let Some(window) = window_weak.upgrade() {'' @ [10] @
     U ''                window.hide().unwrap();'' @ [10] @
     U ''            }'' @ [10] @
     U ''        });''\<close>

definition tool_replacement2 :: "pystr \<Rightarrow> pystr \<Rightarrow> pystr \<Rightarrow> pystr" where
  \<open>tool_replacement2 tool_name tool_var tool_type =
     U ''        // Show the window (non-blocking)'' @ [10] @
     U ''        '' @ tool_var @ U ''_window.show()?;'' @ [10] @
     [10] @
     U ''        // Store handle to keep it alive'' @ [10] @
     U ''        ACTIVE_TOOL_WINDOWS.with(|windows| {'' @ [10] @
     U ''            windows.borrow_mut().insert(ToolType::'' @ tool_type @ U '', ToolWindowHandle::'' @ tool_name @ U ''('' @ tool_var @ U ''_window));'' @ [10] @
     U ''        });'' @ [10] @
     [10] @
     U ''        // Store weak reference'' @ [10] @
     U ''        let mut windows = self.tool_windows.lock().unwrap();'' @ [10] @
     U ''        windows.insert(ToolType::'' @ tool_type @ U '', true);''\<close>

text \<open>The list \<^verbatim>\<open>tools\<close> of fix_tool_windows.py: name, variable and tool type.\<close>

definition window_tools :: "(pystr \<times> pystr \<times> pystr) list" where
  \<open>window_tools =
    [(U ''Hierarchy'', U ''hierarchy'', U ''Hierarchy''),
     (U ''Codex'', U ''codex'', U ''Codex''),
     (U ''Brainstorming'', U ''brainstorming'', U ''Brainstorming''),
     (U ''Analysis'', U ''analysis'', U ''Analysis''),
     (U ''Plot'', U ''plot'', U ''Plot''),
     (U ''Notes'', U ''notes'', U ''Notes''),
     (U ''Research'', U ''research'', U ''Research''),
     (U ''Structure'', U ''structure'', U ''Structure'')]\<close>

text \<open>
  The two patterns of the script are literal pieces joined by \<^verbatim>\<open>\s+\<close>; every piece starts
  with a character that is not white space, so \<^verbatim>\<open>\s+\<close> can only take the longest run of
  white space. \<open>match_pieces\<close> is the length of the match at the start of the text,
  \<open>re_search\<close> says whether there is a match anywhere, and \<open>re_sub_first\<close> is
  \<^verbatim>\<open>re.sub(pattern, repl, s, count=1)\<close> for a replacement without backslashes.
\<close>

fun match_pieces :: "pystr list \<Rightarrow> pystr \<Rightarrow> nat option" where
  "match_pieces [] s = Some 0"
| "match_pieces [p] s = (if prefix p s then Some (length p) else None)"
| "match_pieces (p # q # ps) s =
     (if prefix p s
      then (let r = drop (length p) s; ws = takeWhile is_space r in
            if ws = [] then None
            else map_option (\<lambda>n. length p + length ws + n)
                   (match_pieces (q # ps) (drop (length ws) r)))
      else None)"

fun re_search :: "pystr list \<Rightarrow> pystr \<Rightarrow> bool" where
  "re_search ps [] = (match_pieces ps [] \<noteq> None)"
| "re_search ps (c # cs) = (match_pieces ps (c # cs) \<noteq> None \<or> re_search ps cs)"

fun re_sub_first :: "pystr list \<Rightarrow> pystr \<Rightarrow> pystr \<Rightarrow> pystr" where
  "re_sub_first ps repl [] = (case match_pieces ps [] of Some n \<Rightarrow> repl | None \<Rightarrow> [])"
| "re_sub_first ps repl (c # cs) =
     (case match_pieces ps (c # cs) of
        Some n \<Rightarrow> repl @ drop n (c # cs)
      | None \<Rightarrow> c # re_sub_first ps repl cs)"

text \<open>The body of the loop over the tools, on \<^verbatim>\<open>content_without_macro\<close>.\<close>

definition update_tool :: "pystr \<times> pystr \<times> pystr \<Rightarrow> pystr \<Rightarrow> pystr" where
  "update_tool = (\<lambda>(tool_name, tool_var, tool_type) content_without_macro.
     (let c1 = (if re_search (regex_pattern1 tool_name tool_var tool_type) content_without_macro
                then re_sub_first (regex_pattern1 tool_name tool_var tool_type)
                       (tool_replacement1 tool_name tool_var tool_type) content_without_macro
                else content_without_macro)
      in if re_search (regex_pattern2 tool_name tool_var tool_type) c1
         then re_sub_first (regex_pattern2 tool_name tool_var tool_type)
                (tool_replacement2 tool_name tool_var tool_type) c1
         else c1))"

text \<open>
  \<^verbatim>\<open>s.rfind(sub)\<close>, and \<^verbatim>\<open>s.find(sub, start)\<close> with Python's reading of a negative or
  too large \<open>start\<close>.
\<close>

fun last_occ :: "pystr \<Rightarrow> pystr \<Rightarrow> nat option" where
  "last_occ sub [] = (if sub = [] then Some 0 else None)"
| "last_occ sub (c # cs) =
     (case last_occ sub cs of
        Some n \<Rightarrow> Some (Suc n)
      | None \<Rightarrow> if prefix sub (c # cs) then Some 0 else None)"

definition str_rfind :: "pystr \<Rightarrow> pystr \<Rightarrow> int" where
  "str_rfind s sub = (case last_occ sub s of None \<Rightarrow> -1 | Some n \<Rightarrow> int n)"

definition str_find_from :: "pystr \<Rightarrow> pystr \<Rightarrow> int \<Rightarrow> int" where
  "str_find_from s sub start =
     (let st = (if start < 0 then max 0 (int (length s) + start) else start) in
      if st > int (length s) then -1
      else (case first_occ sub (drop (nat st) s) of None \<Rightarrow> -1 | Some n \<Rightarrow> st + int n))"

text \<open>
  The whole script. \<^verbatim>\<open>exit(1)\<close> ends the process with status 1 before anything is
  written.
\<close>

definition fix_tool_windows :: "pystr \<Rightarrow> outcome" where
  \<open>fix_tool_windows content =
     (let start_idx = str_find content sep in
      if start_idx = -1 then Exited 1 [U ''Could not find slint! macro'']
      else
       (let slint_content = drop (nat start_idx) content;
            content_without_macro = take (nat start_idx) content;
            cwm1 = (if \<not> str_in (U ''use slint::ComponentHandle;'') content_without_macro
                    then str_replace content_without_macro (U ''use tokio::sync::RwLock;'')
                           (U ''use tokio::sync::RwLock;'' @ [10] @ imports_to_add)
                    else content_without_macro);
            sc1 = str_replace slint_content (U ''import { Theme } from "../styles.slint";'')
                    (U ''import { Theme } from "../styles.slint";'' @ slint_struct);
            sc2 = str_replace sc1 (U ''callback close_requested();'') (str_strip callback_code);
            sc3 = str_replace sc2 (U ''background: #2d3748;'') (U ''background: Theme.menu-bg;'');
            sc4 = str_replace sc3 (U ''background: #4a5568;'') (U ''background: Theme.status-bg;'');
            sc5 = str_replace sc4 (U ''background: #ffffff;'') (U ''background: Theme.primary-bg;'');
            sc6 = str_replace sc5 (U ''color: white;'') (U ''color: Theme.text-primary;'');
            cwm2 = (if str_in (U ''static ACTIVE_TOOL_WINDOWS'') cwm1 then cwm1
                    else str_replace cwm1
                           (U ''/// Individual tool window manager for each writing tool'')
                           (helper_code @ [10] @
                            U ''/// Individual tool window manager for each writing tool''));
            cwm3 = fold update_tool window_tools cwm2;
            last_import_idx = str_rfind cwm3 (U ''use '');
            end_of_import_line = str_find_from cwm3 (U '';'') last_import_idx + 1;
            final_content = take (nat end_of_import_line) cwm3 @ [10, 10] @ sc6 @ [10, 10] @
                            drop (nat end_of_import_line) cwm3
        in Written final_content [U ''Done!'']))\<close>

section \<open>Facts about the built-ins\<close>

lemma str_in_sublist: "str_in sub s \<longleftrightarrow> sublist sub s"
  by (induction s) (auto simp: sublist_Cons_right)

lemma replace_from_absent: "\<not> str_in old s \<Longrightarrow> replace_from old new s = s"
  by (induction s) auto

lemma str_replace_absent: "\<not> str_in old s \<Longrightarrow> str_replace s old new = s"
proof -
  assume a: "\<not> str_in old s"
  then have "old \<noteq> []" by (cases s) auto
  with a show ?thesis by (simp add: str_replace_def replace_from_absent)
qed

lemma prefix_str_in: "prefix p s \<Longrightarrow> str_in p s"
  by (simp add: str_in_sublist prefix_imp_sublist)

lemma str_in_drop: "str_in p (drop n s) \<Longrightarrow> str_in p s"
  unfolding str_in_sublist by (metis sublist_drop sublist_order.order_trans)

lemma replace_from_hit:
  "old \<noteq> [] \<Longrightarrow> replace_from old new (old @ r) = new @ replace_from old new r"
  by (cases old) auto

lemma replace_from_present:
  "old \<noteq> [] \<Longrightarrow> str_in old s \<Longrightarrow> str_in new (replace_from old new s)"
proof (induction old new s rule: replace_from.induct)
  case (1 old new)
  then show ?case by simp
next
  case (2 old new c cs)
  show ?case
  proof (cases "prefix old (c # cs)")
    case True
    with 2 show ?thesis by (simp add: str_in_sublist)
  next
    case False
    with 2 have "str_in new (replace_from old new cs)" by simp
    with False show ?thesis by (simp add: str_in_sublist sublist_Cons_right)
  qed
qed

lemma prefix_replace_from:
  "a \<noteq> [] \<Longrightarrow> b \<noteq> [] \<Longrightarrow> hd a = x \<Longrightarrow> hd b = x \<Longrightarrow> x \<notin> set p \<Longrightarrow>
   prefix p (replace_from a b s) \<Longrightarrow> prefix p s"
proof (induction a b s arbitrary: p rule: replace_from.induct)
  case (1 old new)
  then show ?case by simp
next
  case (2 old new c cs)
  show ?case
  proof (cases p)
    case Nil
    then show ?thesis by simp
  next
    case (Cons y p')
    show ?thesis
    proof (cases "prefix old (c # cs)")
      case True
      with 2(3-) Cons have "prefix (y # p') (new @ replace_from old new (drop (length old) (c # cs)))"
        by simp
      with 2(4) have "y = hd new" by (cases new) auto
      with 2(6,7) Cons show ?thesis by simp
    next
      case False
      with 2(8) Cons have "y = c" "prefix p' (replace_from old new cs)" by auto
      moreover from 2(7) Cons have "x \<notin> set p'" by simp
      ultimately show ?thesis using 2(2)[OF _ 2(3-6)] False Cons by auto
    qed
  qed
qed

lemma replace_from_chain:
  "a \<noteq> [] \<Longrightarrow> b \<noteq> [] \<Longrightarrow> hd a = x \<Longrightarrow> hd b = x \<Longrightarrow> x \<notin> set (tl b) \<Longrightarrow>
   \<not> str_in b s \<Longrightarrow> replace_from b c (replace_from a b s) = replace_from a c s"
proof (induction a b s rule: replace_from.induct)
  case (1 old new)
  then show ?case by simp
next
  case (2 old new d ds)
  show ?case
  proof (cases "prefix old (d # ds)")
    case True
    from 2(8) have "\<not> str_in new (drop (length old) (d # ds))"
      using str_in_drop by blast
    with 2 True show ?thesis by (simp add: replace_from_hit)
  next
    case False
    have np: "\<not> prefix new (d # replace_from old new ds)"
    proof
      assume p: "prefix new (d # replace_from old new ds)"
      from 2(4) obtain y ys where new: "new = y # ys" by (cases new) auto
      with p have "y = d" "prefix ys (replace_from old new ds)" by auto
      moreover from new 2(6,7) have "x \<notin> set ys" by simp
      ultimately have "prefix ys ds" using prefix_replace_from[OF 2(3,4,5,6)] by blast
      with new \<open>y = d\<close> have "prefix new (d # ds)" by simp
      with 2(8) show False by simp
    qed
    from 2(8) have "\<not> str_in new ds" by simp
    with 2 False np show ?thesis by simp
  qed
qed


lemma hdr_facts:
  "hdr_ty \<noteq> []" "hdr_path \<noteq> []" "hd hdr_ty = 40" "hd hdr_path = 40"
  "40 \<notin> set (tl hdr_path)"
  by (simp_all add: hdr_ty_def hdr_path_def U_def)

section \<open>Rule order: fix_macro_path.py and fix_macro_ident.py\<close>

text \<open>
  Claim C5. Let the text contain the \<^verbatim>\<open>:ty\<close> macro header and not the \<^verbatim>\<open>:path\<close> one.
  Running fix_macro_path.py and then fix_macro_ident.py, both replacements find their
  target: the first one produces the \<^verbatim>\<open>:path\<close> header (and changes the text), the
  second one turns it into the \<^verbatim>\<open>:ident\<close> header, and the result is the text with
  every \<^verbatim>\<open>:ty\<close> header replaced by the \<^verbatim>\<open>:ident\<close> header. In the other order
  fix_macro_ident.py has no effect and the final text is what fix_macro_path.py alone
  produces.
\<close>

theorem macro_rules_ordering:
  assumes "str_in hdr_ty T" and "\<not> str_in hdr_path T"
  shows "str_in hdr_path (fix_macro_path T) \<and>
         fix_macro_path T \<noteq> T \<and>
         fix_macro_ident (fix_macro_path T) = str_replace T hdr_ty hdr_ident \<and>
         str_in hdr_ident (fix_macro_ident (fix_macro_path T)) \<and>
         fix_macro_ident T = T \<and>
         fix_macro_path (fix_macro_ident T) = fix_macro_path T"
proof -
  have r1: "fix_macro_path T = replace_from hdr_ty hdr_path T"
    by (simp add: fix_macro_path_def str_replace_def hdr_facts)
  have found: "str_in hdr_path (fix_macro_path T)"
    unfolding r1 using assms(1) by (rule replace_from_present[OF hdr_facts(1)])
  with assms(2) have changed: "fix_macro_path T \<noteq> T" by auto
  have "fix_macro_ident (fix_macro_path T) = replace_from hdr_path hdr_ident (replace_from hdr_ty hdr_path T)"
    by (simp add: fix_macro_ident_def r1 str_replace_def hdr_facts)
  also have "\<dots> = replace_from hdr_ty hdr_ident T"
    using assms(2) by (rule replace_from_chain[OF hdr_facts])
  finally have both: "fix_macro_ident (fix_macro_path T) = str_replace T hdr_ty hdr_ident"
    by (simp add: str_replace_def hdr_facts)
  have ident: "str_in hdr_ident (fix_macro_ident (fix_macro_path T))"
    unfolding both using assms(1)
    by (simp add: str_replace_def hdr_facts replace_from_present)
  have noop: "fix_macro_ident T = T"
    using assms(2) by (simp add: fix_macro_ident_def str_replace_absent)
  from found changed both ident noop show ?thesis by simp
qed

theorem macro_rules_ordering_witness:
  "str_in hdr_ty (U ''a'' @ hdr_ty @ U ''b'') \<and> \<not> str_in hdr_path (U ''a'' @ hdr_ty @ U ''b'') \<and>
   fix_macro_ident (fix_macro_path (U ''a'' @ hdr_ty @ U ''b'')) = U ''a'' @ hdr_ident @ U ''b'' \<and>
   fix_macro_path (fix_macro_ident (U ''a'' @ hdr_ty @ U ''b'')) = U ''a'' @ hdr_path @ U ''b''"
proof -
  let ?T = "U ''a'' @ hdr_ty @ U ''b''"
  have h1: "str_in hdr_ty ?T" by (simp add: hdr_ty_def U_def)
  have h2: "\<not> str_in hdr_path ?T" by (simp add: hdr_ty_def hdr_path_def U_def)
  have e1: "str_replace ?T hdr_ty hdr_ident = U ''a'' @ hdr_ident @ U ''b''"
    by (simp add: str_replace_def hdr_ty_def hdr_ident_def U_def)
  have e2: "fix_macro_path ?T = U ''a'' @ hdr_path @ U ''b''"
    by (simp add: fix_macro_path_def str_replace_def hdr_ty_def hdr_path_def U_def)
  from macro_rules_ordering[OF h1 h2] h1 h2 e1 e2 show ?thesis by simp
qed

section \<open>First occurrences and splitting\<close>

lemma first_occ_None: "first_occ sub s = None \<longleftrightarrow> \<not> str_in sub s"
  by (induction s) auto

lemma first_occ_Some:
  "first_occ sub s = Some n \<Longrightarrow>
     n \<le> length s \<and> prefix sub (drop n s) \<and> (\<forall>i<n. \<not> prefix sub (drop i s))"
proof (induction s arbitrary: n)
  case Nil
  then show ?case by (auto split: if_splits)
next
  case (Cons c cs)
  show ?case
  proof (cases "prefix sub (c # cs)")
    case True
    with Cons.prems show ?thesis by simp
  next
    case False
    with Cons.prems obtain m where m: "first_occ sub cs = Some m" "n = Suc m" by auto
    from Cons.IH[OF m(1)] have ih: "m \<le> length cs" "prefix sub (drop m cs)"
      "\<forall>i<m. \<not> prefix sub (drop i cs)" by auto
    have "\<not> prefix sub (drop i (c # cs))" if "i < n" for i
      using that False ih(3) m(2) by (cases i) auto
    with ih m(2) show ?thesis by simp
  qed
qed

lemma str_split_nonempty: "str_split sp s \<noteq> []"
  by (induction sp s rule: str_split.induct) (auto simp: Let_def)

lemma str_split_absent: "\<not> str_in sp s \<Longrightarrow> str_split sp s = [s]"
  by (induction s) (auto simp: Let_def)

lemma str_split_first:
  "sp \<noteq> [] \<Longrightarrow> first_occ sp s = Some n \<Longrightarrow>
     str_split sp s = take n s # str_split sp (drop (n + length sp) s)"
proof (induction s arbitrary: n)
  case Nil
  then show ?case by (auto split: if_splits)
next
  case (Cons c cs)
  show ?case
  proof (cases "prefix sp (c # cs)")
    case True
    with Cons.prems show ?thesis by simp
  next
    case False
    with Cons.prems obtain m where m: "first_occ sp cs = Some m" "n = Suc m" by auto
    from Cons.IH[OF Cons.prems(1) m(1)] False m(2) show ?thesis by (simp add: Let_def)
  qed
qed

lemma first_occ_decomp:
  "first_occ sp s = Some n \<Longrightarrow> s = take n s @ sp @ drop (n + length sp) s"
proof -
  assume "first_occ sp s = Some n"
  then have "prefix sp (drop n s)" by (simp add: first_occ_Some)
  then obtain r where r: "drop n s = sp @ r" by (auto simp: prefix_def)
  then have "drop (n + length sp) s = r"
    by (metis add.commute append_eq_conv_conj drop_drop)
  with r show ?thesis by (metis append_take_drop_id)
qed

lemma overlap_border:
  assumes "prefix a (drop n s)" "prefix a (drop j s)" "n < j" "j < n + length a"
  shows "prefix (drop (j - n) a) a"
proof -
  from assms(1) obtain r where r: "drop n s = a @ r" by (auto simp: prefix_def)
  have "drop j s = drop (j - n) (drop n s)" using assms(3) by simp
  also have "\<dots> = drop (j - n) a @ r" using r assms(3,4) by simp
  finally have p2: "prefix a (drop (j - n) a @ r)" using assms(2) by simp
  have p1: "prefix (drop (j - n) a) (drop (j - n) a @ r)" by simp
  have "length (drop (j - n) a) \<le> length a" by simp
  from prefix_length_prefix[OF p1 p2 this] show ?thesis .
qed

lemma anchor_length: "length anchor = 30"
  by (simp add: anchor_def U_def)

lemma anchor_border_free: "\<forall>d \<in> set [1..<30]. \<not> prefix (drop d anchor) anchor"
  by code_simp

lemma anchor_border_free3: "0 < d \<Longrightarrow> d < length anchor \<Longrightarrow> \<not> prefix (drop d anchor) anchor"
  using anchor_border_free by (simp add: anchor_length)




lemma anchor_nonempty: "anchor \<noteq> []"
  by (simp add: anchor_def U_def)

lemma structure_step_first:
  assumes "first_occ anchor content = Some n"
  shows "structure_step content =
           take n content @ anchor @
           structure_rewrite (hd (str_split anchor (drop (n + length anchor) content)))"
proof -
  let ?tail = "drop (n + length anchor) content"
  have sp: "str_split anchor content = take n content # str_split anchor ?tail"
    using assms by (simp add: str_split_first anchor_nonempty)
  obtain q qs where q: "str_split anchor ?tail = q # qs"
    using str_split_nonempty by (cases "str_split anchor ?tail") auto
  show ?thesis by (simp add: structure_step_def sp q)
qed

text \<open>
  Claim C7. When the text contains the anchor \<^verbatim>\<open>export component StructureTool\<close>, the
  StructureTool step leaves everything up to and including the first occurrence of the
  anchor as it is: the text before that occurrence, followed by the anchor, starts both
  the input and the output of the step.
\<close>

theorem structure_step_frame:
  assumes "str_in anchor content"
  shows "\<exists>n. first_occ anchor content = Some n \<and>
             prefix (take n content @ anchor) content \<and>
             prefix (take n content @ anchor) (structure_step content)"
proof -
  from assms obtain n where n: "first_occ anchor content = Some n"
    using first_occ_None by (cases "first_occ anchor content") auto
  have "prefix (take n content @ anchor) content"
    using first_occ_decomp[OF n] by (metis append.assoc prefixI)
  moreover have "prefix (take n content @ anchor) (structure_step content)"
    by (simp add: structure_step_first[OF n])
  ultimately show ?thesis using n by blast
qed

text \<open>
  Claim C9. When the anchor occurs at two positions of the text, the output of the
  StructureTool step is the text before the first occurrence, one copy of the anchor,
  and the rewritten segment between the first and the second occurrence. The second
  occurrence and all that follows it are not in the output.
\<close>

theorem structure_step_discards:
  assumes "i < j" and "prefix anchor (drop i content)" and "prefix anchor (drop j content)"
  shows "\<exists>pre seg rest.
           content = pre @ anchor @ seg @ anchor @ rest \<and>
           first_occ anchor content = Some (length pre) \<and>
           first_occ anchor (seg @ anchor @ rest) = Some (length seg) \<and>
           structure_step content = pre @ anchor @ structure_rewrite seg"
proof -
  have "str_in anchor content"
    using assms(2) prefix_str_in str_in_drop by blast
  then obtain n where n: "first_occ anchor content = Some n"
    using first_occ_None by (cases "first_occ anchor content") auto
  let ?tail = "drop (n + length anchor) content"
  from first_occ_Some[OF n] have fo: "n \<le> length content" "prefix anchor (drop n content)"
    "\<forall>k<n. \<not> prefix anchor (drop k content)" by auto
  from fo(3) assms(2) have "n \<le> i" by (meson not_le)
  with assms(1) have nj: "n < j" by simp
  have far: "n + length anchor \<le> j"
  proof (rule ccontr)
    assume "\<not> n + length anchor \<le> j"
    then have "j < n + length anchor" by simp
    from overlap_border[OF fo(2) assms(3) nj this]
    have "prefix (drop (j - n) anchor) anchor" .
    moreover have "0 < j - n" "j - n < length anchor"
      using nj \<open>j < n + length anchor\<close> by auto
    ultimately show False using anchor_border_free3 by blast
  qed
  have "drop (j - (n + length anchor)) ?tail = drop j content"
    using far by simp
  with assms(3) have "str_in anchor ?tail"
    using prefix_str_in str_in_drop by metis
  then obtain m where m: "first_occ anchor ?tail = Some m"
    using first_occ_None by (cases "first_occ anchor ?tail") auto
  let ?pre = "take n content" and ?seg = "take m ?tail"
  let ?rest = "drop (m + length anchor) ?tail"
  have t: "?tail = ?seg @ anchor @ ?rest" by (rule first_occ_decomp[OF m])
  have c: "content = ?pre @ anchor @ ?tail" by (rule first_occ_decomp[OF n])
  have lp: "length ?pre = n" using fo(1) by simp
  have ls: "length ?seg = m" using first_occ_Some[OF m] by simp
  have hd: "hd (str_split anchor ?tail) = ?seg"
    using m by (simp add: str_split_first anchor_nonempty)
  have "structure_step content = ?pre @ anchor @ structure_rewrite ?seg"
    using structure_step_first[OF n] hd by simp
  moreover have "content = ?pre @ anchor @ ?seg @ anchor @ ?rest" using c t by simp
  moreover have "first_occ anchor content = Some (length ?pre)" using n lp by simp
  moreover have "first_occ anchor (?seg @ anchor @ ?rest) = Some (length ?seg)"
    using m t ls by simp
  ultimately show ?thesis by blast
qed

section \<open>The brace count of refactor_modules.py\<close>

lemma running_depth_step:
  "running_depth d (take (Suc k) (c # cs)) =
     running_depth (if c = 123 then d + 1 else if c = 125 then d - 1 else d) (take k cs)"
  by simp


lemma scan_from_found:
  "0 < d \<Longrightarrow> m < length cs \<Longrightarrow> running_depth d (take (Suc m) cs) = 0 \<Longrightarrow>
   \<forall>i<m. running_depth d (take (Suc i) cs) \<noteq> 0 \<Longrightarrow>
   scan_from j d cs = j + int m \<and> cs ! m = 125"
proof (induction cs arbitrary: j d m)
  case Nil
  then show ?case by simp
next
  case (Cons c cs)
  let ?d = "if c = 123 then d + 1 else if c = 125 then d - 1 else d"
  show ?case
  proof (cases m)
    case 0
    with Cons.prems(3) have "?d = 0" by simp
    with Cons.prems(1) have "c = 125" "d - 1 = 0" by (auto split: if_splits)
    with 0 show ?thesis by simp
  next
    case (Suc m')
    with Cons.prems(4) have "running_depth d (take (Suc 0) (c # cs)) \<noteq> 0" by blast
    then have d0: "?d \<noteq> 0" by simp
    with Cons.prems(1) have dpos: "0 < ?d" by auto
    from Cons.prems(2) Suc have m': "m' < length cs" by simp
    from Cons.prems(3) Suc have z: "running_depth ?d (take (Suc m') cs) = 0" by simp
    have nz: "\<forall>i<m'. running_depth ?d (take (Suc i) cs) \<noteq> 0"
    proof (intro allI impI)
      fix i assume "i < m'"
      then have "Suc i < m" using Suc by simp
      with Cons.prems(4) have "running_depth d (take (Suc (Suc i)) (c # cs)) \<noteq> 0" by blast
      then show "running_depth ?d (take (Suc i) cs) \<noteq> 0" by simp
    qed
    from Cons.IH[OF dpos m' z nz, of "j + 1"]
    have "scan_from (j + 1) ?d cs = j + 1 + int m'" "cs ! m' = 125" by auto
    with d0 Suc show ?thesis by auto
  qed
qed

text \<open>
  Claim C1. Let the brace count run over the text \<open>T\<close> from the offset \<open>s\<close> on, and let the
  running depth (from 1) be 0 after some character of that remaining text. Then the
  count returns the offset \<open>j\<close> of the first character after which the running depth is
  0; that character is a closing brace, and \<open>s + j\<close> is an index into \<open>T\<close>.
\<close>

theorem brace_scan_balanced:
  assumes "s + k < length T" and "running_depth 1 (take (Suc k) (drop s T)) = 0"
  shows "\<exists>j. brace_scan (drop s T) = int j \<and> s + j < length T \<and> T ! (s + j) = 125 \<and>
             running_depth 1 (take (Suc j) (drop s T)) = 0 \<and>
             (\<forall>i<j. running_depth 1 (take (Suc i) (drop s T)) \<noteq> 0)"
proof -
  let ?part = "drop s T"
  let ?P = "\<lambda>m. running_depth 1 (take (Suc m) ?part) = 0"
  define j where "j = (LEAST m. ?P m)"
  have pj: "?P j" unfolding j_def using assms(2) by (rule LeastI)
  have jk: "j \<le> k" unfolding j_def using assms(2) by (rule Least_le)
  have first: "\<forall>i<j. \<not> ?P i" unfolding j_def using not_less_Least by blast
  from jk assms(1) have jl: "j < length ?part" by simp
  from scan_from_found[OF _ jl pj, of 0] first
  have "scan_from 0 1 ?part = int j" "?part ! j = 125" by auto
  moreover from jl have "?part ! j = T ! (s + j)" by simp
  moreover from jl have "s + j < length T" by simp
  ultimately show ?thesis using pj first by (auto simp: brace_scan_def)
qed

theorem brace_scan_balanced_witness:
  "0 + 6 < length (U ''a{b}c}d'') \<and>
   running_depth 1 (take (Suc 6) (drop 0 (U ''a{b}c}d''))) = 0 \<and>
   brace_scan (drop 0 (U ''a{b}c}d'')) = 5"
proof -
  have h1: "0 + 6 < length (U ''a{b}c}d'')" by (simp add: U_def)
  have h2: "running_depth 1 (take (Suc 6) (drop 0 (U ''a{b}c}d''))) = 0" by (simp add: U_def)
  have e: "brace_scan (drop 0 (U ''a{b}c}d'')) = 5" by (simp add: U_def brace_scan_def)
  from brace_scan_balanced[OF h1 h2] h1 h2 e show ?thesis by simp
qed

section \<open>A part whose braces do not close\<close>

lemma stays_open_iff:
  "stays_open d s \<longleftrightarrow> (\<forall>k<length s. running_depth d (take (Suc k) s) \<noteq> 0)"
  by (induction s arbitrary: d) (simp_all add: All_less_Suc2 Let_def)





section \<open>Runs on concrete texts\<close>

theorem structure_step_frame_witness:
  "str_in anchor (U ''ab'' @ anchor @ U '' { model: [x]; }'') \<and>
   first_occ anchor (U ''ab'' @ anchor @ U '' { model: [x]; }'') = Some 2 \<and>
   structure_step (U ''ab'' @ anchor @ U '' { model: [x]; }'') =
     U ''ab'' @ anchor @ U '' { for item in [x]: }'' \<and>
   (\<exists>n. first_occ anchor (U ''ab'' @ anchor @ U '' { model: [x]; }'') = Some n \<and>
        prefix (take n (U ''ab'' @ anchor @ U '' { model: [x]; }'') @ anchor)
          (structure_step (U ''ab'' @ anchor @ U '' { model: [x]; }'')))"
proof -
  let ?C = "U ''ab'' @ anchor @ U '' { model: [x]; }''"
  have h: "str_in anchor ?C" by code_simp
  have f: "first_occ anchor ?C = Some 2" by code_simp
  have e: "structure_step ?C = U ''ab'' @ anchor @ U '' { for item in [x]: }''" by code_simp
  from structure_step_frame[OF h] h f e show ?thesis by auto
qed

theorem structure_step_discards_witness:
  "(1::nat) < 34 \<and>
   prefix anchor (drop 1 (U ''a'' @ anchor @ U ''b];'' @ anchor @ U ''c];'')) \<and>
   prefix anchor (drop 34 (U ''a'' @ anchor @ U ''b];'' @ anchor @ U ''c];'')) \<and>
   structure_step (U ''a'' @ anchor @ U ''b];'' @ anchor @ U ''c];'') = U ''a'' @ anchor @ U ''b]:'' \<and>
   (\<exists>pre seg rest.
      U ''a'' @ anchor @ U ''b];'' @ anchor @ U ''c];'' = pre @ anchor @ seg @ anchor @ rest \<and>
      structure_step (U ''a'' @ anchor @ U ''b];'' @ anchor @ U ''c];'') =
        pre @ anchor @ structure_rewrite seg)"
proof -
  let ?C = "U ''a'' @ anchor @ U ''b];'' @ anchor @ U ''c];''"
  have h1: "(1::nat) < 34" by simp
  have h2: "prefix anchor (drop 1 ?C)" by code_simp
  have h3: "prefix anchor (drop 34 ?C)" by code_simp
  have e: "structure_step ?C = U ''a'' @ anchor @ U ''b]:''" by code_simp
  from structure_step_discards[OF h1 h2 h3] h2 h3 e show ?thesis by auto
qed

section \<open>Rules whose target is absent\<close>

lemma replace_from_self: "old \<noteq> [] \<Longrightarrow> replace_from old new old = new"
  using replace_from_hit[of old new "[]"] by simp

lemma str_in_length: "str_in sub s \<Longrightarrow> length sub \<le> length s"
  by (simp add: str_in_sublist sublist_length_le)

lemma target_lengths:
  "length target1 = 298" "length target2 = 213" "length replacement2 = 483"
  by (simp_all add: target1_def target2_def replacement2_def U_def)

text \<open>
  An input of add_logs.py without the first target and with the second one: the file
  written back is not the input.
\<close>

theorem add_logs_writes_rule2_counterexample:
  "\<not> str_in target1 target2 \<and> fst (add_logs target2) = replacement2 \<and> replacement2 \<noteq> target2"
proof -
  have a: "\<not> str_in target1 target2"
    using str_in_length[of target1 target2] by (auto simp: target_lengths)
  have ne: "target2 \<noteq> []" using target_lengths(2) by auto
  have "str_in target2 target2" by (simp add: prefix_str_in)
  with a ne have "fst (add_logs target2) = replacement2"
    by (simp add: add_logs_def add_logs_rule1_def add_logs_rule2_def str_replace_def
        replace_from_self)
  moreover have "replacement2 \<noteq> target2"
  proof
    assume "replacement2 = target2"
    then have "length replacement2 = length target2" by simp
    then show False by (simp add: target_lengths)
  qed
  ultimately show ?thesis using a by simp
qed

text \<open>
  Claim C4, as amended. A \<^verbatim>\<open>replace\<close> whose target does not occur in the text returns
  the text unchanged. In add_logs.py an input without the first target passes the first
  rule unchanged, with the line \<^verbatim>\<open>Target 1 not found!\<close> printed, and the script writes
  back what its second rule makes of that input: the input itself when the second target
  is absent too. The replacement of fix_macro_ident.py on an input without its pattern is
  the identity; that script prints nothing.
\<close>

theorem absent_target_unchanged:
  "(\<not> str_in old s \<longrightarrow> str_replace s old new = s) \<and>
   (\<not> str_in target1 content \<longrightarrow>
      add_logs_rule1 (content, out) = (content, out @ [U ''Target 1 not found!'']) \<and>
      add_logs content = add_logs_rule2 (content, [U ''Target 1 not found!''])) \<and>
   (\<not> str_in target1 content \<and> \<not> str_in target2 content \<longrightarrow>
      add_logs content = (content, [U ''Target 1 not found!'', U ''Target 2 not found!''])) \<and>
   (\<not> str_in hdr_path content \<longrightarrow> fix_macro_ident content = content)"
  by (simp add: str_replace_absent add_logs_def add_logs_rule1_def add_logs_rule2_def
      fix_macro_ident_def)

theorem absent_target_unchanged_witness:
  "\<not> str_in (U ''b'') (U ''a'') \<and> str_replace (U ''a'') (U ''b'') (U ''c'') = U ''a'' \<and>
   \<not> str_in target1 (U ''fn'') \<and> \<not> str_in target2 (U ''fn'') \<and>
   add_logs_rule1 (U ''fn'', []) = (U ''fn'', [U ''Target 1 not found!'']) \<and>
   add_logs (U ''fn'') = (U ''fn'', [U ''Target 1 not found!'', U ''Target 2 not found!'']) \<and>
   \<not> str_in hdr_path (U ''fn'') \<and> fix_macro_ident (U ''fn'') = U ''fn''"
proof -
  have h0: "\<not> str_in (U ''b'') (U ''a'')" by (simp add: U_def)
  have l: "length (U ''fn'') = 2" by (simp add: U_def)
  have h1: "\<not> str_in target1 (U ''fn'')"
    using str_in_length[of target1 "U ''fn''"] l by (auto simp: target_lengths)
  have h2: "\<not> str_in target2 (U ''fn'')"
    using str_in_length[of target2 "U ''fn''"] l by (auto simp: target_lengths)
  have h3: "\<not> str_in hdr_path (U ''fn'')" by code_simp
  note A = absent_target_unchanged[of "U ''b''" "U ''a''" "U ''c''" "U ''fn''" "[]"]
  from A h0 have a0: "str_replace (U ''a'') (U ''b'') (U ''c'') = U ''a''" by blast
  from A h1 have a1: "add_logs_rule1 (U ''fn'', []) = (U ''fn'', [] @ [U ''Target 1 not found!''])"
    by blast
  from A h1 h2 have a2: "add_logs (U ''fn'') =
      (U ''fn'', [U ''Target 1 not found!'', U ''Target 2 not found!''])" by blast
  from A h3 have a3: "fix_macro_ident (U ''fn'') = U ''fn''" by blast
  from a1 have a1': "add_logs_rule1 (U ''fn'', []) = (U ''fn'', [U ''Target 1 not found!''])"
    by (simp only: append_Nil)
  from h0 a0 h1 h2 a1' a2 h3 a3 show ?thesis by (intro conjI)
qed


section \<open>Writing a text and reading it back\<close>

lemma newline_in_no_cr: "13 \<notin> set (newline_in F)"
  by (induction F rule: newline_in.induct) auto

lemma encodable_lf: "encodable 10"
  by (simp add: encodable_def)

lemma newline_in_encodable: "list_all encodable F \<Longrightarrow> list_all encodable (newline_in F)"
  by (induction F rule: newline_in.induct) (auto simp: encodable_lf)

lemma newline_in_plain: "c \<noteq> 13 \<Longrightarrow> newline_in (c # X) = c # newline_in X"
  by (cases X) auto

lemma newline_round_lf: "13 \<notin> set T \<Longrightarrow> newline_in (newline_out [10] T) = T"
  by (induction T) (auto simp: newline_out_def newline_in_plain)

lemma newline_round_crlf: "13 \<notin> set T \<Longrightarrow> newline_in (newline_out [13, 10] T) = T"
  by (induction T) (auto simp: newline_out_def newline_in_plain)

lemma newline_out_encodable:
  "list_all encodable T \<Longrightarrow> list_all encodable linesep \<Longrightarrow>
   list_all encodable (newline_out linesep T)"
  by (induction T) (auto simp: newline_out_def)

lemma save_load:
  assumes "13 \<notin> set T" and "list_all encodable T"
    and "linesep = [10] \<or> linesep = [13, 10]"
  shows "\<exists>F'. save linesep T = Some F' \<and> load F' = Some T"
proof -
  have "encodable 13" by (simp add: encodable_def)
  then have e: "list_all encodable linesep" using assms(3) encodable_lf by auto
  have "save linesep T = Some (newline_out linesep T)"
    using assms(2) by (simp add: save_def)
  moreover have "load (newline_out linesep T) = Some T"
    using newline_out_encodable[OF assms(2) e] assms(1,3)
    by (auto simp: load_def newline_round_lf newline_round_crlf)
  ultimately show ?thesis by blast
qed

lemma replace_from_set: "set (replace_from old new s) \<subseteq> set s \<union> set new"
proof (induction old new s rule: replace_from.induct)
  case (1 old new)
  then show ?case by simp
next
  case (2 old new c cs)
  have "set (drop (length old) (c # cs)) \<subseteq> set (c # cs)" by (rule set_drop_subset)
  with 2 show ?case by (cases "old \<noteq> [] \<and> prefix old (c # cs)") auto
qed

lemma hdr_ident_chars: "13 \<notin> set hdr_ident" "list_all encodable hdr_ident"
  by (simp_all add: hdr_ident_def U_def encodable_def)

lemma fix_macro_ident_chars:
  assumes "13 \<notin> set T" and "list_all encodable T"
  shows "13 \<notin> set (fix_macro_ident T)" and "list_all encodable (fix_macro_ident T)"
proof -
  have "fix_macro_ident T = replace_from hdr_path hdr_ident T"
    by (simp add: fix_macro_ident_def str_replace_def hdr_facts)
  then have s: "set (fix_macro_ident T) \<subseteq> set T \<union> set hdr_ident"
    using replace_from_set by simp
  with assms(1) hdr_ident_chars(1) show "13 \<notin> set (fix_macro_ident T)" by auto
  from s assms(2) hdr_ident_chars(2) show "list_all encodable (fix_macro_ident T)"
    by (auto simp: list_all_iff)
qed

text \<open>
  Claim C8. Let \<open>T\<close> be a text that a read of some file returned, and let the line
  separator of the platform be a line feed or a carriage return followed by a line
  feed. Then writing \<open>T\<close> succeeds and reading the written file returns \<open>T\<close> exactly. The
  same holds for the text that fix_macro_ident.py writes, which is \<open>T\<close> after its
  replacement.
\<close>

theorem load_save_round_trip:
  assumes "load F = Some T" and "linesep = [10] \<or> linesep = [13, 10]"
  shows "(\<exists>F'. save linesep T = Some F' \<and> load F' = Some T) \<and>
         (\<exists>F'. save linesep (fix_macro_ident T) = Some F' \<and>
               load F' = Some (fix_macro_ident T))"
proof -
  from assms(1) have e: "list_all encodable F" and t: "T = newline_in F"
    by (auto simp: load_def split: if_splits)
  have c: "13 \<notin> set T" unfolding t by (rule newline_in_no_cr)
  have et: "list_all encodable T" unfolding t using e by (rule newline_in_encodable)
  from save_load[OF c et assms(2)]
    save_load[OF fix_macro_ident_chars[OF c et] assms(2)]
  show ?thesis by (rule conjI)
qed

theorem load_save_round_trip_witness:
  "load (U ''a'' @ [13, 10] @ hdr_path) = Some (U ''a'' @ [10] @ hdr_path) \<and>
   ([13, 10] = [10] \<or> [13, 10] = [13, 10::nat]) \<and>
   save [13, 10] (U ''a'' @ [10] @ hdr_path) = Some (U ''a'' @ [13, 10] @ hdr_path) \<and>
   fix_macro_ident (U ''a'' @ [10] @ hdr_path) = U ''a'' @ [10] @ hdr_ident \<and>
   (\<exists>F'. save [13, 10] (U ''a'' @ [10] @ hdr_ident) = Some F' \<and>
         load F' = Some (U ''a'' @ [10] @ hdr_ident))"
proof -
  have h1: "load (U ''a'' @ [13, 10] @ hdr_path) = Some (U ''a'' @ [10] @ hdr_path)"
    by (simp add: load_def encodable_def hdr_path_def U_def)
  have h2: "[13, 10] = [10] \<or> [13, 10] = [13, 10::nat]" by simp
  have s: "save [13, 10] (U ''a'' @ [10] @ hdr_path) = Some (U ''a'' @ [13, 10] @ hdr_path)"
    by (simp add: save_def newline_out_def encodable_def hdr_path_def U_def)
  have f: "fix_macro_ident (U ''a'' @ [10] @ hdr_path) = U ''a'' @ [10] @ hdr_ident"
    by (simp add: fix_macro_ident_def str_replace_def hdr_path_def hdr_ident_def U_def)
  from load_save_round_trip[OF h1 h2, THEN conjunct2]
  have "\<exists>F'. save [13, 10] (U ''a'' @ [10] @ hdr_ident) = Some F' \<and>
         load F' = Some (U ''a'' @ [10] @ hdr_ident)"
    by (simp only: f)
  with h1 h2 s f show ?thesis by (intro conjI)
qed

section \<open>The macro scenario: fix_build.py, then fix_conflicts.py\<close>

lemma prefix_Cons_if: "prefix (x # xs) (y # ys) = (if x = y then prefix xs ys else False)"
  by simp

lemma str_in_set: "str_in sub s \<Longrightarrow> set sub \<subseteq> set s"
  by (simp add: str_in_sublist set_mono_sublist)

lemma str_replace_missing_char: "c \<in> set old \<Longrightarrow> c \<notin> set s \<Longrightarrow> str_replace s old new = s"
  using str_in_set str_replace_absent by blast

lemma fold_fixed: "(\<And>x. x \<in> set xs \<Longrightarrow> f x c = c) \<Longrightarrow> fold f xs c = c"
  by (induction xs) auto

lemma add_type_arg_absent: "87 \<notin> set content \<Longrightarrow> add_type_arg t content = content"
proof -
  assume a: "87 \<notin> set content"
  obtain tn tt where t: "t = (tn, tt)" by (cases t)
  have m: "87 \<in> set (U ''ToolWindowHandle::'' @ x)" for x by (simp add: U_def)
  have r: "str_replace content (U ''ToolWindowHandle::'' @ x) new = content" for x new
    using str_replace_missing_char[OF m a] .
  show ?thesis by (simp add: t add_type_arg_def Let_def r)
qed

lemma add_type_arg_open_absent: "38 \<notin> set content \<Longrightarrow> add_type_arg_open t content = content"
proof -
  assume a: "38 \<notin> set content"
  obtain tn tt where t: "t = (tn, tt)" by (cases t)
  have m: "38 \<in> set (U ''apply_theme!(&'' @ x)" for x by (simp add: U_def)
  have r: "str_replace content (U ''apply_theme!(&'' @ x) new = content" for x new
    using str_replace_missing_char[OF m a] .
  show ?thesis by (simp add: t add_type_arg_open_def Let_def r)
qed

lemma fix_conflicts_macro_only:
  assumes "\<not> str_in sep (fix_macro_definition content)"
    and "87 \<notin> set (fix_macro_definition content)"
    and "38 \<notin> set (fix_macro_definition content)"
  shows "fix_conflicts content = fix_macro_definition content"
proof -
  have sp: "str_split sep (fix_macro_definition content) = [fix_macro_definition content]"
    using assms(1) by (rule str_split_absent)
  show ?thesis
    by (simp add: fix_conflicts_def sp Let_def fold_fixed add_type_arg_absent
        add_type_arg_open_absent assms)
qed

lemmas eval_simps = prefix_Cons_if str_replace_def str_strip_def is_space_def sep_def
  std_import_def hdr_ty_def U_def Let_def

lemma scenario_build:
  "fix_build scenario_input =
     U ''macro_rules! apply_theme { ($window:expr, $colors:expr) => {{ BODY }; }''"
  by (simp add: fix_build_def fix_macro_lines_def find_line_def insert_struct_def
      add_theme_import_def insert_after_def scenario_input_def eval_simps
      del: Cons_prefix_Cons)

lemma scenario_macro:
  "fix_macro_definition
     (U ''macro_rules! apply_theme { ($window:expr, $colors:expr) => {{ BODY }; }'') =
   U ''macro_rules! apply_theme { ($window:expr, $colors:expr, $theme_type:ty) => {{ BODY }; }''"
  by (simp add: fix_macro_definition_def eval_simps del: Cons_prefix_Cons)

lemma scenario_plain:
  "\<not> str_in sep
     (U ''macro_rules! apply_theme { ($window:expr, $colors:expr, $theme_type:ty) => {{ BODY }; }'')"
  "87 \<notin> set
     (U ''macro_rules! apply_theme { ($window:expr, $colors:expr, $theme_type:ty) => {{ BODY }; }'')"
  "38 \<notin> set
     (U ''macro_rules! apply_theme { ($window:expr, $colors:expr, $theme_type:ty) => {{ BODY }; }'')"
  by (simp_all add: eval_simps del: Cons_prefix_Cons)

lemma scenario_lines_build:
  "fix_build scenario_lines =
     U ''macro_rules! apply_theme {'' @ [10] @
     U ''    ($window:expr, $colors:expr) => {{'' @ [10] @
     U ''        BODY'' @ [10] @
     U ''    }};'' @ [10] @
     U ''}'' @ [10]"
  by (simp add: fix_build_def fix_macro_lines_def find_line_def insert_struct_def
      add_theme_import_def insert_after_def scenario_lines_def eval_simps
      del: Cons_prefix_Cons)

lemma scenario_lines_macro:
  "fix_macro_definition
    (U ''macro_rules! apply_theme {'' @ [10] @
     U ''    ($window:expr, $colors:expr) => {{'' @ [10] @
     U ''        BODY'' @ [10] @
     U ''    }};'' @ [10] @
     U ''}'' @ [10]) =
     U ''macro_rules! apply_theme {'' @ [10] @
     U ''    ($window:expr, $colors:expr, $theme_type:ty) => {{'' @ [10] @
     U ''        BODY'' @ [10] @
     U ''    }}'' @ [10] @
     U ''}'' @ [10]"
  by (simp add: fix_macro_definition_def eval_simps del: Cons_prefix_Cons)

lemma scenario_lines_plain:
  "\<not> str_in sep
    (U ''macro_rules! apply_theme {'' @ [10] @
     U ''    ($window:expr, $colors:expr, $theme_type:ty) => {{'' @ [10] @
     U ''        BODY'' @ [10] @
     U ''    }}'' @ [10] @
     U ''}'' @ [10])"
  "87 \<notin> set
    (U ''macro_rules! apply_theme {'' @ [10] @
     U ''    ($window:expr, $colors:expr, $theme_type:ty) => {{'' @ [10] @
     U ''        BODY'' @ [10] @
     U ''    }}'' @ [10] @
     U ''}'' @ [10])"
  "38 \<notin> set
    (U ''macro_rules! apply_theme {'' @ [10] @
     U ''    ($window:expr, $colors:expr, $theme_type:ty) => {{'' @ [10] @
     U ''        BODY'' @ [10] @
     U ''    }}'' @ [10] @
     U ''}'' @ [10])"
  by (simp_all add: eval_simps del: Cons_prefix_Cons)

lemma scenario_one_line:
  "fix_conflicts (fix_build scenario_input) =
     U ''macro_rules! apply_theme { ($window:expr, $colors:expr, $theme_type:ty) => {{ BODY }; }''"
  unfolding scenario_build
  using fix_conflicts_macro_only[of
      "U ''macro_rules! apply_theme { ($window:expr, $colors:expr) => {{ BODY }; }''"]
  unfolding scenario_macro using scenario_plain by blast

lemma scenario_multi_line:
  "fix_conflicts (fix_build scenario_lines) =
     U ''macro_rules! apply_theme {'' @ [10] @
     U ''    ($window:expr, $colors:expr, $theme_type:ty) => {{'' @ [10] @
     U ''        BODY'' @ [10] @
     U ''    }}'' @ [10] @
     U ''}'' @ [10]"
  unfolding scenario_lines_build
  using fix_conflicts_macro_only[of
      "U ''macro_rules! apply_theme {'' @ [10] @
       U ''    ($window:expr, $colors:expr) => {{'' @ [10] @
       U ''        BODY'' @ [10] @
       U ''    }};'' @ [10] @
       U ''}'' @ [10]"]
  unfolding scenario_lines_macro using scenario_lines_plain by blast

lemma scenario_differs:
  "U ''macro_rules! apply_theme { ($window:expr, $colors:expr, $theme_type:ty) => {{ BODY }; }''
     \<noteq> scenario_expected"
  by (simp add: scenario_expected_def U_def)

text \<open>
  Claim C6, as amended. On the one-line input of the scenario, fix_build.py and then
  fix_conflicts.py add the second opening brace and the parameter \<^verbatim>\<open>$theme_type:ty\<close> and
  leave the closing \<^verbatim>\<open>};\<close> as it is. On the same macro laid out over lines, with \<^verbatim>\<open>};\<close>
  on a line of its own, the closing line becomes \<^verbatim>\<open>}}\<close>, without the semicolon.
\<close>

theorem scenario_actual_output:
  "fix_conflicts (fix_build scenario_input) =
     U ''macro_rules! apply_theme { ($window:expr, $colors:expr, $theme_type:ty) => {{ BODY }; }'' \<and>
   fix_conflicts (fix_build scenario_lines) =
     U ''macro_rules! apply_theme {'' @ [10] @
     U ''    ($window:expr, $colors:expr, $theme_type:ty) => {{'' @ [10] @
     U ''        BODY'' @ [10] @
     U ''    }}'' @ [10] @
     U ''}'' @ [10]"
  using scenario_one_line scenario_multi_line by (rule conjI)

text \<open>The output on the input of the scenario is not the output the specification expects.\<close>

theorem scenario_expected_counterexample:
  "fix_conflicts (fix_build scenario_input) \<noteq> scenario_expected"
  unfolding scenario_one_line by (rule scenario_differs)

section \<open>remove_logs.py: what the substitution deletes and what it keeps\<close>






















section \<open>A rule that does not find its pattern\<close>

lemma str_find_absent: "str_find content sub = -1 \<longleftrightarrow> \<not> str_in sub content"
  by (cases "first_occ sub content") (auto simp: str_find_def first_occ_None[symmetric])

text \<open>
  Claim C2, as amended. In add_logs.py a rule that does not find its target prints its
  \<^verbatim>\<open>not found\<close> line, leaves the text as it is, and the script goes on to the next rule
  and to the write. fix_tool_windows.py, on a text without \<^verbatim>\<open>slint::slint! {\<close>, prints
  \<^verbatim>\<open>Could not find slint! macro\<close> and ends the process with status 1: no later rule is
  applied and the file is not written. On a text with that anchor it always writes the
  file and prints \<^verbatim>\<open>Done!\<close>, whatever its later rules find.
\<close>

theorem miss_continues_or_exits:
  "(\<not> str_in target1 content \<longrightarrow>
      add_logs content = add_logs_rule2 (content, [U ''Target 1 not found!''])) \<and>
   (\<not> str_in target2 content \<longrightarrow>
      add_logs_rule2 (content, out) = (content, out @ [U ''Target 2 not found!''])) \<and>
   (\<not> str_in sep content \<longrightarrow>
      fix_tool_windows content = Exited 1 [U ''Could not find slint! macro'']) \<and>
   (str_in sep content \<longrightarrow>
      (\<exists>final_content. fix_tool_windows content = Written final_content [U ''Done!'']))"
proof -
  have a: "str_find content sep = -1 \<longleftrightarrow> \<not> str_in sep content" by (rule str_find_absent)
  have "\<not> str_in sep content \<Longrightarrow>
          fix_tool_windows content = Exited 1 [U ''Could not find slint! macro'']"
    by (simp add: fix_tool_windows_def a)
  moreover have "str_in sep content \<Longrightarrow>
          \<exists>final_content. fix_tool_windows content = Written final_content [U ''Done!'']"
    by (simp add: fix_tool_windows_def a Let_def)
  ultimately show ?thesis
    by (simp add: add_logs_def add_logs_rule1_def add_logs_rule2_def)
qed

theorem miss_continues_or_exits_witness:
  "\<not> str_in target1 (U ''fn'') \<and> \<not> str_in target2 (U ''fn'') \<and> \<not> str_in sep (U ''fn'') \<and>
   str_in sep sep \<and>
   add_logs (U ''fn'') = (U ''fn'', [U ''Target 1 not found!'', U ''Target 2 not found!'']) \<and>
   fix_tool_windows (U ''fn'') = Exited 1 [U ''Could not find slint! macro''] \<and>
   (\<exists>final_content. fix_tool_windows sep = Written final_content [U ''Done!''])"
proof -
  have l: "length (U ''fn'') = 2" by (simp add: U_def)
  have h1: "\<not> str_in target1 (U ''fn'')"
    using str_in_length[of target1 "U ''fn''"] l by (auto simp: target_lengths)
  have h2: "\<not> str_in target2 (U ''fn'')"
    using str_in_length[of target2 "U ''fn''"] l by (auto simp: target_lengths)
  have h3: "\<not> str_in sep (U ''fn'')" by (simp add: sep_def U_def)
  have h4: "str_in sep sep" by (simp add: prefix_str_in)
  note A = miss_continues_or_exits[of "U ''fn''" "[U ''Target 1 not found!'']"]
  from A h1 have a1: "add_logs (U ''fn'') = add_logs_rule2 (U ''fn'', [U ''Target 1 not found!''])"
    by blast
  from A h2 have a2: "add_logs_rule2 (U ''fn'', [U ''Target 1 not found!'']) =
      (U ''fn'', [U ''Target 1 not found!''] @ [U ''Target 2 not found!''])" by blast
  from a1 a2 have a12: "add_logs (U ''fn'') =
      (U ''fn'', [U ''Target 1 not found!'', U ''Target 2 not found!''])" by simp
  from A h3 have a3: "fix_tool_windows (U ''fn'') = Exited 1 [U ''Could not find slint! macro'']"
    by blast
  from miss_continues_or_exits[of sep "[]"] h4
  have a4: "\<exists>final_content. fix_tool_windows sep = Written final_content [U ''Done!'']" by blast
  from h1 h2 h3 h4 a12 a3 a4 show ?thesis by (intro conjI)
qed

text \<open>
  A text without the anchor: the run of fix_tool_windows.py ends with status 1 and
  writes nothing.
\<close>

theorem fix_tool_windows_exit_counterexample:
  "fix_tool_windows (U ''fn main() {}'') = Exited 1 [U ''Could not find slint! macro'']"
  by (simp add: fix_tool_windows_def str_find_def sep_def U_def)

end
